theory Spec2Isabelle
  imports Complex_Main "HOL-Library.Product_Lexorder"
begin

section \<open>Python values and JSON payloads\<close>

text \<open>
  A parsed JSON document, as \<^verbatim>\<open>response.json()\<close> hands it to the clients. An object is
  the association list of the parsed dict (keys in document order, looked up with
  \<open>map_of\<close>); a number is a rational, which covers every JSON integer and every finite
  double. Python's \<^verbatim>\<open>None\<close> is \<open>JNull\<close>.
\<close>

datatype json =
    JNull
  | JBool bool
  | JNum rat
  | JStr string
  | JArr "json list"
  | JObj "(string \<times> json) list"

text \<open>
  The exceptions that can leave a function of the two modules. \<open>Unmodelled\<close> is not a
  Python exception: it marks a payload whose treatment by pandas lies outside this
  model (a frame built from something that is not a list of records or a dict of
  arrays, a cell that is not a number handed to arithmetic). No theorem below concludes
  anything from it.
\<close>

datatype error =
    ValueError string
  | KeyError string
  | TypeError string
  | IndexError string
  | AttributeError string
  | ToDatetimeError
  | Unmodelled string

definition ebind :: "error + 'a \<Rightarrow> ('a \<Rightarrow> error + 'b) \<Rightarrow> error + 'b" where
  "ebind m f = (case m of Inl e \<Rightarrow> Inl e | Inr x \<Rightarrow> f x)"

text \<open>Python's short-circuit \<^verbatim>\<open>a and b\<close> on conditions that may raise.\<close>

definition and_then :: "error + bool \<Rightarrow> error + bool \<Rightarrow> error + bool" where
  "and_then a b = (case a of Inl e \<Rightarrow> Inl e | Inr c \<Rightarrow> (if c then b else Inr False))"

text \<open>Truth value of an object in a condition (\<^verbatim>\<open>if data\<close>, \<^verbatim>\<open>if homes\<close>).\<close>

fun truthy :: "json \<Rightarrow> bool" where
  "truthy JNull = False"
| "truthy (JBool b) = b"
| "truthy (JNum n) = (n \<noteq> 0)"
| "truthy (JStr s) = (s \<noteq> [])"
| "truthy (JArr xs) = (xs \<noteq> [])"
| "truthy (JObj kvs) = (kvs \<noteq> [])"

fun is_prefix :: "string \<Rightarrow> string \<Rightarrow> bool" where
  "is_prefix [] s = True"
| "is_prefix (c # cs) [] = False"
| "is_prefix (c # cs) (d # ds) = (c = d \<and> is_prefix cs ds)"

fun is_substring :: "string \<Rightarrow> string \<Rightarrow> bool" where
  "is_substring k [] = (k = [])"
| "is_substring k (c # cs) = (is_prefix k (c # cs) \<or> is_substring k cs)"

text \<open>
  \<^verbatim>\<open>k in x\<close> for a string \<open>k\<close>: key membership in a dict, element membership in a
  list, substring test in a string, \<^verbatim>\<open>TypeError\<close> on \<^verbatim>\<open>None\<close>, a number or a bool.
\<close>

fun py_in :: "string \<Rightarrow> json \<Rightarrow> error + bool" where
  "py_in k (JObj kvs) = Inr (k \<in> set (map fst kvs))"
| "py_in k (JArr xs) = Inr (JStr k \<in> set xs)"
| "py_in k (JStr s) = Inr (is_substring k s)"
| "py_in k x = Inl (TypeError ''argument is not iterable'')"

text \<open>\<^verbatim>\<open>x[k]\<close> for a string \<open>k\<close>.\<close>

fun getitem :: "json \<Rightarrow> string \<Rightarrow> error + json" where
  "getitem (JObj kvs) k = (case map_of kvs k of None \<Rightarrow> Inl (KeyError k) | Some v \<Rightarrow> Inr v)"
| "getitem (JArr xs) k = Inl (TypeError ''list indices must be integers or slices, not str'')"
| "getitem (JStr s) k = Inl (TypeError ''string indices must be integers, not str'')"
| "getitem x k = Inl (TypeError ''object is not subscriptable'')"

text \<open>The chain \<^verbatim>\<open>x[k1][k2]...\<close>, left to right.\<close>

fun getitems :: "json \<Rightarrow> string list \<Rightarrow> error + json" where
  "getitems x [] = Inr x"
| "getitems x (k # ks) = ebind (getitem x k) (\<lambda>y. getitems y ks)"

text \<open>\<^verbatim>\<open>x[0]\<close>. A parsed JSON dict has string keys only, so \<^verbatim>\<open>d[0]\<close> is a KeyError.\<close>

fun getitem0 :: "json \<Rightarrow> error + json" where
  "getitem0 (JArr xs) = (case xs of [] \<Rightarrow> Inl (IndexError ''list index out of range'') | x # _ \<Rightarrow> Inr x)"
| "getitem0 (JStr s) = (case s of [] \<Rightarrow> Inl (IndexError ''string index out of range'') | c # _ \<Rightarrow> Inr (JStr [c]))"
| "getitem0 (JObj kvs) = Inl (KeyError ''0'')"
| "getitem0 x = Inl (TypeError ''object is not subscriptable'')"

text \<open>\<^verbatim>\<open>x.get(k)\<close>: only a dict has the method.\<close>

fun dict_get :: "json \<Rightarrow> string \<Rightarrow> error + json" where
  "dict_get (JObj kvs) k = Inr (case map_of kvs k of None \<Rightarrow> JNull | Some v \<Rightarrow> v)"
| "dict_get x k = Inl (AttributeError ''object has no attribute get'')"

text \<open>
  What a function of the energy client returns where Python returns either
  \<^verbatim>\<open>None\<close> or a tuple, and the unpacking \<^verbatim>\<open>a, b = v\<close> of such a value.
\<close>

datatype pyval = PyNone | PyTuple "json list"

fun unpack2 :: "pyval \<Rightarrow> error + (json \<times> json)" where
  "unpack2 PyNone = Inl (TypeError ''cannot unpack non-iterable NoneType object'')"
| "unpack2 (PyTuple [a, b]) = Inr (a, b)"
| "unpack2 (PyTuple xs) =
     Inl (ValueError (if length xs < 2 then ''not enough values to unpack'' else ''too many values to unpack''))"

section \<open>Tables (pandas)\<close>

text \<open>
  A cell of a frame: a JSON value taken from the payload, \<^verbatim>\<open>NaN\<close> for a field a record
  does not have and for a null of a numeric column, and after \<^verbatim>\<open>pd.to_datetime\<close> an
  instant or \<^verbatim>\<open>NaT\<close>. A row lists its
  cells under the column labels, in column order; a frame is the list of its rows in
  index order (\<^verbatim>\<open>reset_index(drop=True)\<close> renumbers the index and leaves the rows as
  they are). The column labels of a frame without rows are not kept: such a frame is
  returned as it is by every function below.
\<close>

datatype cell = Val json | NaN | Timestamp int | NaT

type_synonym row = "(string \<times> cell) list"
type_synonym dataframe = "row list"

text \<open>The first occurrence of every key, in order; \<open>seen\<close> holds the keys already met.\<close>

fun keep_first :: "('a \<Rightarrow> 'k) \<Rightarrow> 'k list \<Rightarrow> 'a list \<Rightarrow> 'a list" where
  "keep_first key seen [] = []"
| "keep_first key seen (x # xs) =
     (if key x \<in> set seen then keep_first key seen xs
      else x # keep_first key (key x # seen) xs)"

fun as_record :: "json \<Rightarrow> (string \<times> json) list option" where
  "as_record (JObj kvs) = Some kvs"
| "as_record x = None"

fun as_records :: "json list \<Rightarrow> (string \<times> json) list list option" where
  "as_records [] = Some []"
| "as_records (x # xs) =
     (case as_record x of None \<Rightarrow> None
      | Some r \<Rightarrow> (case as_records xs of None \<Rightarrow> None | Some rs \<Rightarrow> Some (r # rs)))"

definition record_row :: "string list \<Rightarrow> (string \<times> json) list \<Rightarrow> row" where
  "record_row cols r = map (\<lambda>c. (c, case map_of r c of None \<Rightarrow> NaN | Some v \<Rightarrow> Val v)) cols"

definition row_get :: "string \<Rightarrow> row \<Rightarrow> cell" where
  "row_get c r = (case map_of r c of None \<Rightarrow> NaN | Some v \<Rightarrow> v)"

text \<open>
  The dtype pandas infers for a column when it builds a frame. A column that holds at
  least one number, and besides numbers only nulls, becomes a float64 column: each
  \<^verbatim>\<open>None\<close> in it is stored as \<^verbatim>\<open>NaN\<close>. Any other column is of dtype object and keeps
  its \<^verbatim>\<open>None\<close>.
\<close>

fun is_number :: "cell \<Rightarrow> bool" where
  "is_number (Val (JNum n)) = True"
| "is_number c = False"

fun is_null :: "cell \<Rightarrow> bool" where
  "is_null NaN = True"
| "is_null (Val JNull) = True"
| "is_null c = False"

definition numeric_column :: "cell list \<Rightarrow> bool" where
  "numeric_column col = ((\<exists>c\<in>set col. is_number c) \<and> (\<forall>c\<in>set col. is_number c \<or> is_null c))"

definition infer_dtypes :: "dataframe \<Rightarrow> dataframe" where
  "infer_dtypes df =
     map (map (\<lambda>kv. (fst kv,
                     if snd kv = Val JNull \<and> numeric_column (map (row_get (fst kv)) df)
                     then NaN else snd kv))) df"

text \<open>
  \<^verbatim>\<open>pd.DataFrame(xs)\<close> for a list of records: the columns are the keys in order of
  first appearance, a record without a key gets \<^verbatim>\<open>NaN\<close> there.
\<close>

definition DataFrame_records :: "json list \<Rightarrow> error + dataframe" where
  "DataFrame_records xs =
     (case as_records xs of
        None \<Rightarrow> Inl (Unmodelled ''DataFrame of a list with an element that is not a dict'')
      | Some rs \<Rightarrow>
          Inr (infer_dtypes
                 (map (record_row (keep_first (\<lambda>c. c) [] (concat (map (map fst) rs)))) rs)))"

fun as_columns :: "(string \<times> json) list \<Rightarrow> (string \<times> json list) list option" where
  "as_columns [] = Some []"
| "as_columns ((k, JArr xs) # kvs) =
     (case as_columns kvs of None \<Rightarrow> None | Some cs \<Rightarrow> Some ((k, xs) # cs))"
| "as_columns ((k, x) # kvs) = None"

text \<open>
  \<^verbatim>\<open>pd.DataFrame(d)\<close> for a dict of arrays: one column per key, one row per position;
  arrays of different lengths are a \<^verbatim>\<open>ValueError\<close>.
\<close>

definition DataFrame_columns :: "(string \<times> json) list \<Rightarrow> error + dataframe" where
  "DataFrame_columns kvs =
     (case as_columns kvs of
        None \<Rightarrow> Inl (Unmodelled ''DataFrame of a dict with a value that is not a list'')
      | Some cs \<Rightarrow>
          (case cs of
             [] \<Rightarrow> Inr []
           | (k, xs) # _ \<Rightarrow>
               if \<forall>c \<in> set cs. length (snd c) = length xs
               then Inr (infer_dtypes
                           (map (\<lambda>i. map (\<lambda>c. (fst c, Val (snd c ! i))) cs) [0..<length xs]))
               else Inl (ValueError ''All arrays must be of the same length'')))"

fun DataFrame :: "json \<Rightarrow> error + dataframe" where
  "DataFrame (JArr xs) = DataFrame_records xs"
| "DataFrame (JObj kvs) = DataFrame_columns kvs"
| "DataFrame x = Inl (Unmodelled ''DataFrame of a scalar'')"

text \<open>\<^verbatim>\<open>df.empty\<close>: no rows or no columns.\<close>

definition df_empty :: "dataframe \<Rightarrow> bool" where
  "df_empty df = (case df of [] \<Rightarrow> True | r # _ \<Rightarrow> r = [])"

definition df_columns :: "dataframe \<Rightarrow> string list" where
  "df_columns df = (case df of [] \<Rightarrow> [] | r # _ \<Rightarrow> map fst r)"

fun row_set :: "string \<Rightarrow> cell \<Rightarrow> row \<Rightarrow> row" where
  "row_set c v [] = [(c, v)]"
| "row_set c v ((k, w) # r) = (if k = c then (k, v) # r else (k, w) # row_set c v r)"

text \<open>\<^verbatim>\<open>df[c]\<close> read and \<^verbatim>\<open>df[c] = values\<close>.\<close>

definition df_getcol :: "string \<Rightarrow> dataframe \<Rightarrow> error + cell list" where
  "df_getcol c df =
     (if c \<in> set (df_columns df) then Inr (map (row_get c) df) else Inl (KeyError c))"

definition df_setcol :: "string \<Rightarrow> cell list \<Rightarrow> dataframe \<Rightarrow> error + dataframe" where
  "df_setcol c vs df =
     (if length vs \<noteq> length df
      then Inl (ValueError ''Length of values does not match length of index'')
      else Inr (map (\<lambda>(r, v). row_set c v r) (zip df vs)))"

fun time_cell :: "int option \<Rightarrow> cell" where
  "time_cell None = NaT"
| "time_cell (Some t) = Timestamp t"

text \<open>
  The sort key of a row under a timestamp column: instants in ascending order, then
  the rows without one (\<^verbatim>\<open>na_position='last'\<close>).
\<close>

definition ts_key :: "string \<Rightarrow> row \<Rightarrow> bool \<times> int" where
  "ts_key c r = (case row_get c r of Timestamp t \<Rightarrow> (False, t) | _ \<Rightarrow> (True, 0))"

text \<open>
  \<^verbatim>\<open>df.sort_values(c)\<close> on a column of timestamps. pandas sorts with an unstable
  algorithm by default; the model is the stable sort, which differs from it at most in
  the order of rows with equal keys.
\<close>

definition sort_values :: "string \<Rightarrow> dataframe \<Rightarrow> error + dataframe" where
  "sort_values c df =
     (if c \<in> set (df_columns df) then Inr (sort_key (ts_key c) df) else Inl (KeyError c))"

text \<open>
  \<^verbatim>\<open>df.rename(columns={old: new})\<close>. A frame that already has a column \<open>new\<close> would end
  up with two columns of that label, which the rows of this model cannot hold.
\<close>

definition df_rename :: "string \<Rightarrow> string \<Rightarrow> dataframe \<Rightarrow> error + dataframe" where
  "df_rename old new df =
     (if old \<in> set (df_columns df) \<and> new \<in> set (df_columns df)
      then Inl (Unmodelled ''rename to a label the frame already has'')
      else Inr (map (map (\<lambda>kv. (if fst kv = old then new else fst kv, snd kv))) df))"

text \<open>\<^verbatim>\<open>df.iloc[0].to_frame().T\<close>: the first row as a frame of one row.\<close>

definition iloc0_frame :: "dataframe \<Rightarrow> error + dataframe" where
  "iloc0_frame df =
     (case df of [] \<Rightarrow> Inl (IndexError ''single positional indexer is out-of-bounds'')
      | r # _ \<Rightarrow> Inr [r])"

text \<open>\<^verbatim>\<open>df.drop_duplicates(subset=c)\<close>: the first row of every value of column \<open>c\<close>.\<close>

definition drop_duplicates :: "string \<Rightarrow> dataframe \<Rightarrow> error + dataframe" where
  "drop_duplicates c df =
     (if c \<in> set (df_columns df) then Inr (keep_first (row_get c) [] df) else Inl (KeyError c))"

section \<open>The network and the file system\<close>

text \<open>
  One call of \<^verbatim>\<open>requests.post\<close> or \<^verbatim>\<open>requests.get\<close> followed by
  \<^verbatim>\<open>raise_for_status()\<close> and \<^verbatim>\<open>json()\<close> has three outcomes: a parsed body, an
  \<^verbatim>\<open>HTTPError\<close> (status 400 to 599, with the body text), or another
  \<^verbatim>\<open>RequestException\<close> (connection failure, timeout, invalid URL, a body that is not
  JSON). The outcome may depend on the requests sent before. Every function threads
  the world: the requests sent so far and the CSV files written so far.
\<close>

datatype request =
    POST "string option" "(string \<times> string) list" json
  | GET string "(string \<times> json) list"

datatype outcome =
    Response json
  | HTTPError nat string
  | RequestException string

text \<open>The outcomes in which \<^verbatim>\<open>requests\<close> raises.\<close>

fun failed :: "outcome \<Rightarrow> bool" where
  "failed (Response j) = False"
| "failed (HTTPError code body) = True"
| "failed (RequestException msg) = True"

record world =
  sent :: "request list"
  files :: "(string \<times> dataframe) list"

record env =
  TIBER_TOKEN :: "string option"
  TIBBER_API_URL :: "string option"
  WEATHER_UNITS :: "string option"
  requests_send :: "request list \<Rightarrow> request \<Rightarrow> outcome"
  to_datetime :: "bool \<Rightarrow> cell list \<Rightarrow> int option list option"
  float_add :: "rat \<Rightarrow> rat \<Rightarrow> rat"

text \<open>
  \<open>to_datetime utc column\<close> stands for \<^verbatim>\<open>pd.to_datetime(column, utc=...)\<close>: \<open>None\<close>
  when pandas raises, otherwise one instant per cell (an integer on the time line),
  \<open>None\<close> for \<^verbatim>\<open>NaT\<close>. \<open>float_add\<close> stands for the addition pandas performs on two
  numeric columns (IEEE double addition on float64). Both are parameters: pandas is
  not part of this repository.
\<close>

type_synonym 'a io = "world \<Rightarrow> (error + 'a) \<times> world"

definition then_pure :: "(error + 'a) \<times> world \<Rightarrow> ('a \<Rightarrow> error + 'b) \<Rightarrow> (error + 'b) \<times> world" where
  "then_pure r f = (case r of (Inl e, s) \<Rightarrow> (Inl e, s) | (Inr x, s) \<Rightarrow> (f x, s))"

section \<open>Energy client (get\_api\_data.py)\<close>

text \<open>The configuration error of \<open>_make_graphql_request\<close>.\<close>

definition token_unset :: error where
  "token_unset = ValueError ''TIBBER_TOKEN environment variable not set.''"

text \<open>The request \<open>_make_graphql_request\<close> posts: its headers and its payload.\<close>

definition graphql_post :: "env \<Rightarrow> string \<Rightarrow> string \<Rightarrow> json \<Rightarrow> request" where
  "graphql_post e token query variables =
     (let headers = [(''Authorization'', ''Bearer '' @ token),
                     (''Content-Type'', ''application/json'')];
          payload = JObj [(''query'', JStr query), (''variables'', variables)]
      in POST (TIBBER_API_URL e) headers payload)"

definition make_graphql_request :: "env \<Rightarrow> string \<Rightarrow> json \<Rightarrow> json io" where
  "make_graphql_request e query variables w =
     (case TIBER_TOKEN e of
        None \<Rightarrow> (Inl token_unset, w)
      | Some token \<Rightarrow>
          (let req = graphql_post e token query variables
           in case requests_send e (sent w) req of
                Response j \<Rightarrow> (Inr j, w\<lparr>sent := sent w @ [req]\<rparr>)
              | HTTPError code body \<Rightarrow> (Inr JNull, w\<lparr>sent := sent w @ [req]\<rparr>)
              | RequestException msg \<Rightarrow> (Inr JNull, w\<lparr>sent := sent w @ [req]\<rparr>)))"

text \<open>The GraphQL documents, with their whitespace collapsed.\<close>

definition home_query :: string where
  "home_query = ''{ viewer { homes { id address { address1 postalCode city country } } } }''"

definition prices_query :: string where
  "prices_query = ''query ($homeId: ID!) { viewer { home(id: $homeId) { currentSubscription { priceInfo { current { total startsAt level } today { total startsAt level } tomorrow { total startsAt level } } } } } }''"

definition consumption_query :: string where
  "consumption_query = ''query ($homeId: ID!, $last: Int!) { viewer { home(id: $homeId) { consumption(resolution: HOURLY, last: $last) { nodes { from to consumption unitPrice unitPriceVAT totalCost currency } } } } }''"

definition live_query :: string where
  "live_query = ''subscription ($homeId: ID!) { liveMeasurement(homeId: $homeId) { timestamp power accumulatedConsumption accumulatedCost currency minPower averagePower maxPower powerProduction } }''"

text \<open>
  \<open>get_home_id\<close> after its request. The f-string of the \<^verbatim>\<open>print\<close> reads
  \<^verbatim>\<open>homes[0]['address']['address1']\<close>, \<^verbatim>\<open>homes[0]['address']['city']\<close> and
  \<^verbatim>\<open>homes[0]['id']\<close> in this order before the \<^verbatim>\<open>return\<close> reads two of them again, so
  a missing \<^verbatim>\<open>city\<close> raises too.
\<close>

definition get_home_id_of :: "json \<Rightarrow> error + pyval" where
  "get_home_id_of data =
     ebind (and_then (Inr (truthy data))
           (and_then (py_in ''data'' data)
           (and_then (ebind (getitems data [''data'']) (py_in ''viewer''))
                     (ebind (getitems data [''data'', ''viewer'']) (py_in ''homes'')))))
       (\<lambda>ok. if ok then
          ebind (getitems data [''data'', ''viewer'', ''homes'']) (\<lambda>homes.
            if truthy homes then
              ebind (ebind (getitem0 homes) (\<lambda>h. getitems h [''address'', ''address1''])) (\<lambda>a1.
              ebind (ebind (getitem0 homes) (\<lambda>h. getitems h [''address'', ''city''])) (\<lambda>city.
              ebind (ebind (getitem0 homes) (\<lambda>h. getitem h ''id'')) (\<lambda>i.
                Inr (PyTuple [i, a1]))))
            else Inr PyNone)
        else Inr PyNone)"

definition get_home_id :: "env \<Rightarrow> pyval io" where
  "get_home_id e w = then_pure (make_graphql_request e home_query JNull w) get_home_id_of"

text \<open>
  The guard both table functions share, as written:
  \<^verbatim>\<open>data and 'data' in data and 'viewer' in data['data'] and 'home' in data['data']['viewer']['home']\<close>.
  Its last conjunct looks for the key \<^verbatim>\<open>home\<close> inside the home object.
\<close>

definition home_guard :: "json \<Rightarrow> error + bool" where
  "home_guard data =
     and_then (Inr (truthy data))
    (and_then (py_in ''data'' data)
    (and_then (ebind (getitems data [''data'']) (py_in ''viewer''))
              (ebind (getitems data [''data'', ''viewer'', ''home'']) (py_in ''home''))))"

text \<open>What \<^verbatim>\<open>list.extend(x)\<close> appends: the elements \<open>x\<close> yields when iterated.\<close>

fun py_iter :: "json \<Rightarrow> error + json list" where
  "py_iter (JArr xs) = Inr xs"
| "py_iter (JStr s) = Inr (map (\<lambda>c. JStr [c]) s)"
| "py_iter (JObj kvs) = Inr (map (\<lambda>kv. JStr (fst kv)) kvs)"
| "py_iter x = Inl (TypeError ''object is not iterable'')"

text \<open>The list \<^verbatim>\<open>prices\<close> that \<open>get_current_and_upcoming_prices\<close> collects.\<close>

definition prices_of :: "json \<Rightarrow> error + json list" where
  "prices_of data =
     ebind (home_guard data) (\<lambda>ok.
       if ok then
         ebind (getitems data [''data'', ''viewer'', ''home'', ''currentSubscription'', ''priceInfo''])
           (\<lambda>price_info.
         ebind (dict_get price_info ''current'') (\<lambda>c.
         ebind (if truthy c then ebind (getitem price_info ''current'') (\<lambda>x. Inr [x])
                else Inr []) (\<lambda>prices1.
         ebind (dict_get price_info ''today'') (\<lambda>t.
         ebind (if truthy t
                then ebind (ebind (getitem price_info ''today'') py_iter) (\<lambda>xs. Inr (prices1 @ xs))
                else Inr prices1) (\<lambda>prices2.
         ebind (dict_get price_info ''tomorrow'') (\<lambda>t'.
           if truthy t'
           then ebind (ebind (getitem price_info ''tomorrow'') py_iter) (\<lambda>xs. Inr (prices2 @ xs))
           else Inr prices2))))))
       else Inr [])"

text \<open>\<^verbatim>\<open>df[c] = pd.to_datetime(df[c], utc=utc)\<close>.\<close>

definition df_to_datetime :: "env \<Rightarrow> bool \<Rightarrow> string \<Rightarrow> dataframe \<Rightarrow> error + dataframe" where
  "df_to_datetime e utc c df =
     ebind (df_getcol c df) (\<lambda>col.
       case to_datetime e utc col of
         None \<Rightarrow> Inl ToDatetimeError
       | Some ts \<Rightarrow> df_setcol c (map time_cell ts) df)"

text \<open>From \<^verbatim>\<open>df = pd.DataFrame(prices)\<close> to the \<^verbatim>\<open>return df\<close>.\<close>

definition prices_frame :: "env \<Rightarrow> json list \<Rightarrow> error + dataframe" where
  "prices_frame e prices =
     ebind (DataFrame_records prices) (\<lambda>df.
       if \<not> df_empty df then
         ebind (df_to_datetime e False ''startsAt'' df) (\<lambda>df1.
         ebind (drop_duplicates ''startsAt'' df1) (sort_values ''startsAt''))
       else Inr df)"

definition get_current_and_upcoming_prices :: "env \<Rightarrow> json \<Rightarrow> dataframe io" where
  "get_current_and_upcoming_prices e home_id w =
     then_pure (make_graphql_request e prices_query (JObj [(''homeId'', home_id)]) w)
       (\<lambda>data. ebind (prices_of data) (prices_frame e))"

text \<open>The value of \<^verbatim>\<open>consumption_data\<close> that \<open>get_historical_consumption\<close> collects.\<close>

definition consumption_data_of :: "json \<Rightarrow> error + json" where
  "consumption_data_of data =
     ebind (home_guard data) (\<lambda>ok.
       if ok then
         ebind (getitems data [''data'', ''viewer'', ''home'']) (\<lambda>home.
         ebind (and_then (ebind (dict_get home ''consumption'') (\<lambda>c. Inr (truthy c)))
                         (ebind (ebind (getitem home ''consumption'') (\<lambda>c. dict_get c ''nodes''))
                                (\<lambda>n. Inr (truthy n)))) (\<lambda>ok2.
           if ok2 then getitems home [''consumption'', ''nodes''] else Inr (JArr [])))
       else Inr (JArr []))"

fun sequence :: "(error + 'a) list \<Rightarrow> error + 'a list" where
  "sequence [] = Inr []"
| "sequence (m # ms) = ebind m (\<lambda>x. ebind (sequence ms) (\<lambda>xs. Inr (x # xs)))"

text \<open>
  \<^verbatim>\<open>df[a] + df[b]\<close>, cell by cell: the sum of two numbers, \<^verbatim>\<open>NaN\<close> where a number meets
  \<^verbatim>\<open>NaN\<close>. Any other pair of cells is outside the model.
\<close>

fun cell_add :: "env \<Rightarrow> cell \<Rightarrow> cell \<Rightarrow> error + cell" where
  "cell_add e (Val (JNum x)) (Val (JNum y)) = Inr (Val (JNum (float_add e x y)))"
| "cell_add e (Val (JNum x)) NaN = Inr NaN"
| "cell_add e NaN (Val (JNum y)) = Inr NaN"
| "cell_add e NaN NaN = Inr NaN"
| "cell_add e a b = Inl (Unmodelled ''addition of cells that are not numbers'')"

definition column_add :: "env \<Rightarrow> cell list \<Rightarrow> cell list \<Rightarrow> error + cell list" where
  "column_add e xs ys = sequence (map (\<lambda>(x, y). cell_add e x y) (zip xs ys))"

text \<open>From \<^verbatim>\<open>df = pd.DataFrame(consumption_data)\<close> to the \<^verbatim>\<open>return df\<close>.\<close>

definition consumption_frame :: "env \<Rightarrow> json \<Rightarrow> error + dataframe" where
  "consumption_frame e consumption_data =
     ebind (DataFrame consumption_data) (\<lambda>df.
       if \<not> df_empty df then
         ebind (df_to_datetime e False ''from'' df) (\<lambda>df1.
         ebind (df_to_datetime e False ''to'' df1) (\<lambda>df2.
         ebind (df_getcol ''unitPrice'' df2) (\<lambda>a.
         ebind (df_getcol ''unitPriceVAT'' df2) (\<lambda>b.
         ebind (column_add e a b) (\<lambda>total.
         ebind (df_setcol ''totalPrice'' total df2) (sort_values ''from''))))))
       else Inr df)"

definition get_historical_consumption :: "env \<Rightarrow> json \<Rightarrow> int \<Rightarrow> dataframe io" where
  "get_historical_consumption e home_id num_hours w =
     then_pure (make_graphql_request e consumption_query
                  (JObj [(''homeId'', home_id), (''last'', JNum (of_int num_hours))]) w)
       (\<lambda>data. ebind (consumption_data_of data) (consumption_frame e))"

definition get_live_measurement :: "env \<Rightarrow> json \<Rightarrow> json io" where
  "get_live_measurement e home_id w =
     make_graphql_request e live_query (JObj [(''homeId'', home_id)]) w"

text \<open>\<^verbatim>\<open>df.to_csv(path)\<close>: the file at \<open>path\<close> now holds the frame.\<close>

definition to_csv :: "string \<Rightarrow> dataframe \<Rightarrow> world \<Rightarrow> world" where
  "to_csv path df w = w\<lparr>files := (path, df) # filter (\<lambda>f. fst f \<noteq> path) (files w)\<rparr>"

text \<open>
  The top-level sequence of the energy module. Its first statement is
  \<^verbatim>\<open>my_home_id, my_home_address = get_home_id()\<close>.
\<close>

definition main_energy :: "env \<Rightarrow> unit io" where
  "main_energy e w =
     (case get_home_id e w of
        (Inl err, w1) \<Rightarrow> (Inl err, w1)
      | (Inr v, w1) \<Rightarrow>
          (case unpack2 v of
             Inl err \<Rightarrow> (Inl err, w1)
           | Inr (my_home_id, my_home_address) \<Rightarrow>
               if truthy my_home_id then
                 (case get_current_and_upcoming_prices e my_home_id w1 of
                    (Inl err, w2) \<Rightarrow> (Inl err, w2)
                  | (Inr price_df, w2) \<Rightarrow>
                      (let w3 = (if \<not> df_empty price_df
                                 then to_csv ''../data/raw/historical_consumption.csv'' price_df w2
                                 else w2)
                       in case get_historical_consumption e my_home_id 720 w3 of
                            (Inl err, w4) \<Rightarrow> (Inl err, w4)
                          | (Inr consumption_df, w4) \<Rightarrow>
                              (let w5 = (if \<not> df_empty consumption_df
                                         then to_csv ''../data/raw/historical_consumption.csv'' consumption_df w4
                                         else w4)
                               in case get_live_measurement e my_home_id w5 of
                                    (Inl err, w6) \<Rightarrow> (Inl err, w6)
                                  | (Inr live_data, w6) \<Rightarrow> (Inr (), w6))))
               else (Inr (), w1)))"

section \<open>Weather client (get\_weather\_api\_data.py)\<close>

definition OPENMETEO_API_URL :: string where
  "OPENMETEO_API_URL = ''https://api.open-meteo.com/v1/forecast''"

definition LATITUDE :: rat where
  "LATITUDE = 520766 / 10000"

definition LONGITUDE :: rat where
  "LONGITUDE = 42986 / 10000"

definition TIMEZONE :: string where
  "TIMEZONE = ''Europe/Amsterdam''"

definition forecast_params :: "env \<Rightarrow> int \<Rightarrow> int \<Rightarrow> (string \<times> json) list" where
  "forecast_params e num_hours past_hours =
     [(''latitude'', JNum LATITUDE),
      (''longitude'', JNum LONGITUDE),
      (''hourly'', JStr ''temperature_2m,relative_humidity_2m,precipitation,rain,snowfall,weather_code,wind_speed_10m,wind_direction_10m,surface_pressure,cloud_cover,is_day,shortwave_radiation''),
      (''temperature_unit'', JStr (if WEATHER_UNITS e = Some ''imperial'' then ''fahrenheit'' else ''celsius'')),
      (''wind_speed_unit'', JStr (if WEATHER_UNITS e = Some ''imperial'' then ''mph'' else ''ms'')),
      (''precipitation_unit'', JStr (if WEATHER_UNITS e = Some ''imperial'' then ''inch'' else ''mm'')),
      (''timezone'', JStr TIMEZONE),
      (''forecast_hours'', JNum (of_int num_hours)),
      (''past_hours'', JNum (of_int past_hours))]"

definition weather_codes :: "(rat \<times> string) list" where
  "weather_codes =
     [(0, ''Clear sky''),
      (1, ''Mostly clear''),
      (2, ''Partly cloudy''),
      (3, ''Overcast''),
      (45, ''Fog''),
      (48, ''Depositing rime fog''),
      (51, ''Drizzle: Light''),
      (53, ''Drizzle: Moderate''),
      (55, ''Drizzle: Dense''),
      (56, ''Freezing Drizzle: Light''),
      (57, ''Freezing Drizzle: Dense''),
      (61, ''Rain: Slight''),
      (63, ''Rain: Moderate''),
      (65, ''Rain: Heavy''),
      (66, ''Freezing Rain: Light''),
      (67, ''Freezing Rain: Heavy''),
      (71, ''Snow fall: Slight''),
      (73, ''Snow fall: Moderate''),
      (75, ''Snow fall: Heavy''),
      (77, ''Snow grains''),
      (80, ''Rain showers: Slight''),
      (81, ''Rain showers: Moderate''),
      (82, ''Rain showers: Violent''),
      (85, ''Snow showers: Slight''),
      (86, ''Snow showers: Heavy''),
      (95, ''Thunderstorm: Slight or moderate''),
      (96, ''Thunderstorm with slight hail''),
      (99, ''Thunderstorm with heavy hail'')]"

text \<open>
  \<^verbatim>\<open>df['weather_code'].map({...})\<close> on one cell: a code without an entry, and a missing
  code, give \<^verbatim>\<open>NaN\<close>.
\<close>

fun weather_description :: "cell \<Rightarrow> error + cell" where
  "weather_description (Val (JNum code)) =
     Inr (case map_of weather_codes code of None \<Rightarrow> NaN | Some d \<Rightarrow> Val (JStr d))"
| "weather_description (Val JNull) = Inr NaN"
| "weather_description NaN = Inr NaN"
| "weather_description c = Inl (Unmodelled ''weather code that is not a number'')"

text \<open>The lambda applied to \<^verbatim>\<open>df['wind_direction_10m']\<close>, on a number.\<close>

definition wind_direction_cardinal :: "rat \<Rightarrow> string" where
  "wind_direction_cardinal d =
     (if d \<ge> 337.5 \<or> d < 22.5 then ''N''
      else if d \<ge> 22.5 \<and> d < 67.5 then ''NE''
      else if d \<ge> 67.5 \<and> d < 112.5 then ''E''
      else if d \<ge> 112.5 \<and> d < 157.5 then ''SE''
      else if d \<ge> 157.5 \<and> d < 202.5 then ''S''
      else if d \<ge> 202.5 \<and> d < 247.5 then ''SW''
      else if d \<ge> 247.5 \<and> d < 292.5 then ''W''
      else ''NW'')"

text \<open>
  The same lambda on a cell. Every comparison with \<^verbatim>\<open>NaN\<close> is false, so the chain ends
  in its last branch; a bool compares as 0 or 1; \<^verbatim>\<open>None\<close>, a string, a list or a dict
  cannot be compared with a float.
\<close>

fun wind_direction_cell :: "cell \<Rightarrow> error + cell" where
  "wind_direction_cell (Val (JNum d)) = Inr (Val (JStr (wind_direction_cardinal d)))"
| "wind_direction_cell NaN = Inr (Val (JStr ''NW''))"
| "wind_direction_cell (Val (JBool b)) =
     Inr (Val (JStr (wind_direction_cardinal (if b then 1 else 0))))"
| "wind_direction_cell (Val x) =
     Inl (TypeError ''comparison with a float is not supported for this type'')"
| "wind_direction_cell c = Inl (Unmodelled ''wind direction that is a timestamp'')"

text \<open>\<open>get_hourly_forecast\<close> from \<^verbatim>\<open>data = response.json()\<close> to the \<^verbatim>\<open>return df\<close>.\<close>

definition hourly_frame :: "env \<Rightarrow> json \<Rightarrow> error + dataframe" where
  "hourly_frame e data =
     (if \<not> truthy data then Inr []
      else ebind (py_in ''hourly'' data) (\<lambda>has_hourly.
        if \<not> has_hourly then Inr []
        else
          ebind (ebind (getitem data ''hourly'') DataFrame) (\<lambda>df.
            if \<not> df_empty df then
              ebind (df_rename ''time'' ''timestamp'' df) (\<lambda>df1.
              ebind (df_to_datetime e True ''timestamp'' df1) (\<lambda>df2.
              ebind (ebind (df_getcol ''weather_code'' df2) (\<lambda>col. sequence (map weather_description col)))
                (\<lambda>descriptions.
              ebind (df_setcol ''weather_description'' descriptions df2) (\<lambda>df3.
              ebind (ebind (df_getcol ''wind_direction_10m'' df3) (\<lambda>col. sequence (map wind_direction_cell col)))
                (\<lambda>cardinals.
              ebind (df_setcol ''wind_direction_cardinal'' cardinals df3) (\<lambda>df4.
                sort_values ''timestamp'' df4))))))
            else Inr df)))"

definition get_hourly_forecast :: "env \<Rightarrow> int \<Rightarrow> int \<Rightarrow> dataframe io" where
  "get_hourly_forecast e num_hours past_hours w =
     (let req = GET OPENMETEO_API_URL (forecast_params e num_hours past_hours)
      in case requests_send e (sent w) req of
           Response data \<Rightarrow> (hourly_frame e data, w\<lparr>sent := sent w @ [req]\<rparr>)
         | HTTPError code body \<Rightarrow> (Inr [], w\<lparr>sent := sent w @ [req]\<rparr>)
         | RequestException msg \<Rightarrow> (Inr [], w\<lparr>sent := sent w @ [req]\<rparr>))"

definition get_current_weather :: "env \<Rightarrow> dataframe io" where
  "get_current_weather e w =
     (case get_hourly_forecast e 1 0 w of
        (Inl err, w1) \<Rightarrow> (Inl err, w1)
      | (Inr hourly_df, w1) \<Rightarrow>
          if \<not> df_empty hourly_df then (iloc0_frame hourly_df, w1) else (Inr [], w1))"

text \<open>The top-level sequence of the weather module; \<open>parent_dir\<close> is the project root.\<close>

definition main_weather :: "env \<Rightarrow> string \<Rightarrow> unit io" where
  "main_weather e parent_dir w =
     (case get_current_weather e w of
        (Inl err, w1) \<Rightarrow> (Inl err, w1)
      | (Inr current_weather_df, w1) \<Rightarrow>
          (let w2 = to_csv (parent_dir @ ''/data/raw/current_weather_data.csv'') current_weather_df w1
           in case get_hourly_forecast e 72 24 w2 of
                (Inl err, w3) \<Rightarrow> (Inl err, w3)
              | (Inr hourly_forecast_df, w3) \<Rightarrow>
                  (Inr (),
                   if \<not> df_empty hourly_forecast_df
                   then to_csv (parent_dir @ ''/data/raw/hourly_forecast_data.csv'') hourly_forecast_df w3
                   else w3)))"

section \<open>Scenarios\<close>

text \<open>
  Concrete payloads and a concrete environment on which the theorems below are run.
  \<open>demo_to_datetime\<close> knows three instants (seconds since the epoch) and maps a
  missing value to \<^verbatim>\<open>NaT\<close>; \<open>scenario_env out\<close> answers every request with \<open>out\<close>.
\<close>

definition demo_instants :: "(string \<times> int) list" where
  "demo_instants =
     [(''2024-01-01T09:00:00Z'', 1704099600),
      (''2024-01-01T10:00:00Z'', 1704103200),
      (''2024-01-01T11:00:00Z'', 1704106800)]"

fun demo_instant :: "cell \<Rightarrow> int option option" where
  "demo_instant (Val (JStr s)) =
     (case map_of demo_instants s of None \<Rightarrow> None | Some t \<Rightarrow> Some (Some t))"
| "demo_instant (Val JNull) = Some None"
| "demo_instant NaN = Some None"
| "demo_instant c = None"

fun demo_to_datetime :: "bool \<Rightarrow> cell list \<Rightarrow> int option list option" where
  "demo_to_datetime utc [] = Some []"
| "demo_to_datetime utc (c # cs) =
     (case demo_instant c of None \<Rightarrow> None
      | Some t \<Rightarrow> (case demo_to_datetime utc cs of None \<Rightarrow> None | Some ts \<Rightarrow> Some (t # ts)))"

definition scenario_env :: "outcome \<Rightarrow> env" where
  "scenario_env out =
     \<lparr>TIBER_TOKEN = Some ''token'', TIBBER_API_URL = Some ''https://api.tibber.com/v1-beta/gql'',
      WEATHER_UNITS = None, requests_send = (\<lambda>sent req. out),
      to_datetime = demo_to_datetime, float_add = (+)\<rparr>"

definition world0 :: world where
  "world0 = \<lparr>sent = [], files = []\<rparr>"

text \<open>
  The responses have the shape of their GraphQL query: the home object of the price
  query holds \<^verbatim>\<open>currentSubscription\<close>, that of the consumption query holds
  \<^verbatim>\<open>consumption\<close>.
\<close>

definition price_entry :: json where
  "price_entry =
     JObj [(''total'', JNum 1), (''startsAt'', JStr ''2024-01-01T10:00:00Z''),
           (''level'', JStr ''NORMAL'')]"

definition price_response :: json where
  "price_response =
     JObj [(''data'', JObj [(''viewer'', JObj [(''home'', JObj [(''currentSubscription'',
       JObj [(''priceInfo'', JObj [(''current'', price_entry), (''today'', JArr [price_entry]),
                                   (''tomorrow'', JArr [])])])])])])]"

definition no_home_response :: json where
  "no_home_response = JObj [(''data'', JObj [(''viewer'', JObj [])])]"

definition consumption_node :: json where
  "consumption_node =
     JObj [(''from'', JStr ''2024-01-01T09:00:00Z''), (''to'', JStr ''2024-01-01T10:00:00Z''),
           (''consumption'', JNum 1), (''unitPrice'', JNum (1/2)), (''unitPriceVAT'', JNum (1/4)),
           (''totalCost'', JNum (3/4)), (''currency'', JStr ''EUR'')]"

definition consumption_response :: json where
  "consumption_response =
     JObj [(''data'', JObj [(''viewer'', JObj [(''home'', JObj [(''consumption'',
       JObj [(''nodes'', JArr [consumption_node])])])])])]"

text \<open>The mocked home listing, and a listing without homes.\<close>

definition home_response :: json where
  "home_response =
     JObj [(''data'', JObj [(''viewer'', JObj [(''homes'', JArr [
       JObj [(''id'', JStr ''h1''),
             (''address'', JObj [(''address1'', JStr ''Main St''), (''city'', JStr ''X''),
                                 (''postalCode'', JStr ''1''), (''country'', JStr ''NL'')])]])])])]"

definition no_homes_response :: json where
  "no_homes_response = JObj [(''data'', JObj [(''viewer'', JObj [(''homes'', JArr [])])])]"

text \<open>\<open>lacks k x\<close>: \<open>x\<close> is a dict and has no key \<open>k\<close>.\<close>

fun lacks :: "string \<Rightarrow> json \<Rightarrow> bool" where
  "lacks k (JObj kvs) = (k \<notin> set (map fst kvs))"
| "lacks k x = False"

text \<open>
  Responses that pass the guard of the table functions (their home object has a key
  \<^verbatim>\<open>home\<close>), with entries out of order and a timestamp that \<^verbatim>\<open>current\<close> and \<^verbatim>\<open>today\<close>
  share, and a forecast of two hours.
\<close>

definition price_entry_at :: "string \<Rightarrow> rat \<Rightarrow> json" where
  "price_entry_at t price =
     JObj [(''total'', JNum price), (''startsAt'', JStr t), (''level'', JStr ''NORMAL'')]"

definition guarded_price_response :: json where
  "guarded_price_response =
     JObj [(''data'', JObj [(''viewer'', JObj [(''home'', JObj [(''home'', JNull), (''currentSubscription'',
       JObj [(''priceInfo'', JObj [
          (''current'', price_entry_at ''2024-01-01T10:00:00Z'' 1),
          (''today'', JArr [price_entry_at ''2024-01-01T11:00:00Z'' 3,
                            price_entry_at ''2024-01-01T10:00:00Z'' 2,
                            price_entry_at ''2024-01-01T09:00:00Z'' 4]),
          (''tomorrow'', JArr [])])])])])])]"

definition guarded_price_frame :: dataframe where
  "guarded_price_frame =
     [[(''total'', Val (JNum 4)), (''startsAt'', Timestamp 1704099600), (''level'', Val (JStr ''NORMAL''))],
      [(''total'', Val (JNum 1)), (''startsAt'', Timestamp 1704103200), (''level'', Val (JStr ''NORMAL''))],
      [(''total'', Val (JNum 3)), (''startsAt'', Timestamp 1704106800), (''level'', Val (JStr ''NORMAL''))]]"

definition guarded_consumption_response :: json where
  "guarded_consumption_response =
     JObj [(''data'', JObj [(''viewer'', JObj [(''home'', JObj [(''home'', JNull), (''consumption'',
       JObj [(''nodes'', JArr [
         JObj [(''from'', JStr ''2024-01-01T10:00:00Z''), (''to'', JStr ''2024-01-01T11:00:00Z''),
               (''unitPrice'', JNum (1/2)), (''unitPriceVAT'', JNum (1/4))],
         JObj [(''from'', JStr ''2024-01-01T09:00:00Z''), (''to'', JStr ''2024-01-01T10:00:00Z''),
               (''unitPrice'', JNum 1), (''unitPriceVAT'', JNum (1/4))]])])])])])]"

definition guarded_consumption_frame :: dataframe where
  "guarded_consumption_frame =
     [[(''from'', Timestamp 1704099600), (''to'', Timestamp 1704103200),
       (''unitPrice'', Val (JNum 1)), (''unitPriceVAT'', Val (JNum (1/4))),
       (''totalPrice'', Val (JNum (5/4)))],
      [(''from'', Timestamp 1704103200), (''to'', Timestamp 1704106800),
       (''unitPrice'', Val (JNum (1/2))), (''unitPriceVAT'', Val (JNum (1/4))),
       (''totalPrice'', Val (JNum (3/4)))]]"

definition forecast_response :: json where
  "forecast_response =
     JObj [(''hourly'', JObj [
       (''time'', JArr [JStr ''2024-01-01T10:00:00Z'', JStr ''2024-01-01T09:00:00Z'']),
       (''weather_code'', JArr [JNum 3, JNum 4]),
       (''wind_direction_10m'', JArr [JNum 200, JNum 10])])]"

definition forecast_frame :: dataframe where
  "forecast_frame =
     [[(''timestamp'', Timestamp 1704099600), (''weather_code'', Val (JNum 4)),
       (''wind_direction_10m'', Val (JNum 10)), (''weather_description'', NaN),
       (''wind_direction_cardinal'', Val (JStr ''N''))],
      [(''timestamp'', Timestamp 1704103200), (''weather_code'', Val (JNum 3)),
       (''wind_direction_10m'', Val (JNum 200)), (''weather_description'', Val (JStr ''Overcast'')),
       (''wind_direction_cardinal'', Val (JStr ''S''))]]"

text \<open>The same environment without a token.\<close>

definition unset_env :: "outcome \<Rightarrow> env" where
  "unset_env out = (scenario_env out)\<lparr>TIBER_TOKEN := None\<rparr>"

text \<open>
  A response of the shape of the price query in which \<^verbatim>\<open>current\<close> and the first entry of
  \<^verbatim>\<open>today\<close> share the timestamp and differ in price.
\<close>

definition shared_timestamp_response :: json where
  "shared_timestamp_response =
     JObj [(''data'', JObj [(''viewer'', JObj [(''home'', JObj [(''currentSubscription'',
       JObj [(''priceInfo'', JObj [
          (''current'', price_entry_at ''2024-01-01T10:00:00Z'' 1),
          (''today'', JArr [price_entry_at ''2024-01-01T10:00:00Z'' 2,
                            price_entry_at ''2024-01-01T11:00:00Z'' 3]),
          (''tomorrow'', JArr [])])])])])])]"

section \<open>Properties\<close>

lemmas run_defs = scenario_env_def world0_def then_pure_def make_graphql_request_def
  ebind_def and_then_def home_guard_def

subsection \<open>The guard of the table functions\<close>

text \<open>
  C1. The scenario of the price table: \<^verbatim>\<open>current\<close> is one entry, \<^verbatim>\<open>today\<close> holds the
  same entry, \<^verbatim>\<open>tomorrow\<close> is empty. The guard asks for a key \<^verbatim>\<open>home\<close> inside the
  home object, which holds \<^verbatim>\<open>currentSubscription\<close> only, so no price is collected and
  \<open>get_current_and_upcoming_prices\<close> returns the frame without rows, not the one row
  the scenario expects.
\<close>

theorem prices_scenario_returns_no_row:
  "fst (get_current_and_upcoming_prices (scenario_env (Response price_response))
          (JStr ''h1'') world0) = Inr []"
  by (simp add: get_current_and_upcoming_prices_def run_defs prices_of_def price_response_def
      prices_frame_def DataFrame_records_def infer_dtypes_def df_empty_def)

text \<open>
  C2. A malformed response, \<^verbatim>\<open>{"data": {"viewer": {}}}\<close>: the guard reads
  \<^verbatim>\<open>data['data']['viewer']['home']\<close> before any test for that key, and
  \<open>get_current_and_upcoming_prices\<close> raises \<^verbatim>\<open>KeyError('home')\<close> instead of returning
  an empty table.
\<close>

theorem prices_missing_home_raises:
  "fst (get_current_and_upcoming_prices (scenario_env (Response no_home_response))
          (JStr ''h1'') world0) = Inl (KeyError ''home'')"
  by (simp add: get_current_and_upcoming_prices_def run_defs prices_of_def no_home_response_def)

text \<open>
  C3. A well-formed consumption response with one node: the same guard fails on the
  home object, which holds \<^verbatim>\<open>consumption\<close> only, and \<open>get_historical_consumption\<close>
  returns the frame without rows instead of one row per node.
\<close>

theorem consumption_scenario_returns_no_row:
  "fst (get_historical_consumption (scenario_env (Response consumption_response))
          (JStr ''h1'') 720 world0) = Inr []"
  by (simp add: get_historical_consumption_def run_defs consumption_data_of_def
      consumption_response_def consumption_frame_def DataFrame_records_def infer_dtypes_def
      df_empty_def)

text \<open>
  C6. A price response in which \<^verbatim>\<open>current\<close> and the first entry of \<^verbatim>\<open>today\<close> share a
  timestamp: the guard fails as above, no entry is collected, and the table returned
  holds no row at all, so the fields of the \<^verbatim>\<open>current\<close> entry are not retained.
\<close>

theorem prices_shared_timestamp_nothing_retained:
  "fst (get_current_and_upcoming_prices (scenario_env (Response shared_timestamp_response))
          (JStr ''h1'') world0) = Inr []"
  by (simp add: get_current_and_upcoming_prices_def run_defs prices_of_def
      shared_timestamp_response_def prices_frame_def DataFrame_records_def infer_dtypes_def
      df_empty_def)

subsection \<open>Home lookup\<close>

lemma getitem_Inr: "getitem x k = Inr v \<Longrightarrow> truthy x \<and> py_in k x = Inr True"
  by (cases x) (auto split: option.splits dest!: map_of_SomeD intro: rev_image_eqI)

lemma getitems_Cons_Inr:
  "getitems x (k # ks) = Inr v \<Longrightarrow> \<exists>y. getitem x k = Inr y \<and> getitems y ks = Inr v"
  by (cases "getitem x k") (simp_all add: ebind_def)

lemma lacks_py_in: "lacks k x \<Longrightarrow> py_in k x = Inr False"
  by (cases x) simp_all

lemma get_home_id_of_found:
  assumes "getitems data [''data'', ''viewer'', ''homes''] = Inr (JArr (h # hs))"
    and "getitem h ''id'' = Inr i"
    and "getitems h [''address'', ''address1''] = Inr a1"
    and "getitems h [''address'', ''city''] = Inr c"
  shows "get_home_id_of data = Inr (PyTuple [i, a1])"
proof -
  from assms(1) obtain d where d: "getitem data ''data'' = Inr d"
    and d2: "getitems d [''viewer'', ''homes''] = Inr (JArr (h # hs))"
    using getitems_Cons_Inr by blast
  from d2 obtain v where v: "getitem d ''viewer'' = Inr v"
    and v2: "getitems v [''homes''] = Inr (JArr (h # hs))"
    using getitems_Cons_Inr by blast
  from v2 obtain hm where hm: "getitem v ''homes'' = Inr hm" and "getitems hm [] = Inr (JArr (h # hs))"
    using getitems_Cons_Inr by blast
  then have hm': "getitem v ''homes'' = Inr (JArr (h # hs))" by simp
  note a = getitem_Inr [OF d] getitem_Inr [OF v] getitem_Inr [OF hm']
  show ?thesis
    using a d v hm' assms(2,3,4)
    by (simp add: get_home_id_of_def ebind_def and_then_def)
qed

lemma get_home_id_of_no_homes:
  assumes "getitems data [''data'', ''viewer'', ''homes''] = Inr (JArr [])"
  shows "get_home_id_of data = Inr PyNone"
proof -
  from assms(1) obtain d where d: "getitem data ''data'' = Inr d"
    and d2: "getitems d [''viewer'', ''homes''] = Inr (JArr [])"
    using getitems_Cons_Inr by blast
  from d2 obtain v where v: "getitem d ''viewer'' = Inr v"
    and v2: "getitems v [''homes''] = Inr (JArr [])"
    using getitems_Cons_Inr by blast
  from v2 obtain hm where hm: "getitem v ''homes'' = Inr hm" and "getitems hm [] = Inr (JArr [])"
    using getitems_Cons_Inr by blast
  then have hm': "getitem v ''homes'' = Inr (JArr [])" by simp
  note a = getitem_Inr [OF d] getitem_Inr [OF v] getitem_Inr [OF hm']
  show ?thesis
    using a d v hm'
    by (simp add: get_home_id_of_def ebind_def and_then_def)
qed

text \<open>
  C5. When the home listing holds at least one home, and that home has its \<^verbatim>\<open>id\<close> and
  the \<^verbatim>\<open>address1\<close> and \<^verbatim>\<open>city\<close> of its address (the fields the query asks for and the
  function reads), \<open>get_home_id\<close> returns the pair of the first home's id and first
  address line; when the listing holds no home it returns \<^verbatim>\<open>None\<close>. The witness runs the
  mocked response, which gives \<^verbatim>\<open>("h1", "Main St")\<close>.
\<close>

theorem get_home_id_first_home:
  assumes "make_graphql_request e home_query JNull w = (Inr data, w')"
  shows "(getitems data [''data'', ''viewer'', ''homes''] = Inr (JArr (h # hs)) \<and>
          getitem h ''id'' = Inr i \<and>
          getitems h [''address'', ''address1''] = Inr a1 \<and>
          getitems h [''address'', ''city''] = Inr c
          \<longrightarrow> get_home_id e w = (Inr (PyTuple [i, a1]), w'))
       \<and> (getitems data [''data'', ''viewer'', ''homes''] = Inr (JArr [])
          \<longrightarrow> get_home_id e w = (Inr PyNone, w'))"
  using assms
  by (auto simp: get_home_id_def then_pure_def get_home_id_of_found get_home_id_of_no_homes)

lemma get_home_id_of_absent:
  assumes "data = JNull
     \<or> lacks ''data'' data
     \<or> (case getitems data [''data''] of Inr d \<Rightarrow> lacks ''viewer'' d | Inl err \<Rightarrow> False)
     \<or> (case getitems data [''data'', ''viewer''] of Inr v \<Rightarrow> lacks ''homes'' v | Inl err \<Rightarrow> False)
     \<or> getitems data [''data'', ''viewer'', ''homes''] = Inr (JArr [])"
  shows "get_home_id_of data = Inr PyNone"
  using assms
proof (elim disjE)
  assume "data = JNull"
  then show ?thesis by (simp add: get_home_id_of_def ebind_def and_then_def)
next
  assume "lacks ''data'' data"
  then show ?thesis by (simp add: get_home_id_of_def ebind_def and_then_def lacks_py_in)
next
  assume a: "case getitems data [''data''] of Inr d \<Rightarrow> lacks ''viewer'' d | Inl err \<Rightarrow> False"
  then obtain d where d: "getitem data ''data'' = Inr d" and l: "lacks ''viewer'' d"
    by (cases "getitem data ''data''") (auto simp: ebind_def)
  show ?thesis using getitem_Inr [OF d] d lacks_py_in [OF l]
    by (simp add: get_home_id_of_def ebind_def and_then_def)
next
  assume a: "case getitems data [''data'', ''viewer''] of Inr v \<Rightarrow> lacks ''homes'' v | Inl err \<Rightarrow> False"
  then obtain d where d: "getitem data ''data'' = Inr d"
    by (cases "getitem data ''data''") (auto simp: ebind_def)
  with a obtain v where v: "getitem d ''viewer'' = Inr v" and l: "lacks ''homes'' v"
    by (cases "getitem d ''viewer''") (auto simp: ebind_def)
  show ?thesis using getitem_Inr [OF d] getitem_Inr [OF v] d v lacks_py_in [OF l]
    by (simp add: get_home_id_of_def ebind_def and_then_def)
next
  assume "getitems data [''data'', ''viewer'', ''homes''] = Inr (JArr [])"
  then show ?thesis by (rule get_home_id_of_no_homes)
qed

text \<open>
  C4. When the request fails (HTTP error status or network failure), or the response
  lacks one of the keys \<^verbatim>\<open>data\<close>, \<^verbatim>\<open>viewer\<close>, \<^verbatim>\<open>homes\<close> the guard tests, or the listing holds
  no home, \<open>get_home_id\<close> returns the single value \<^verbatim>\<open>None\<close>, which is not a pair of
  absent values; unpacking it into two variables is a \<^verbatim>\<open>TypeError\<close>, and that is what the
  top-level sequence of the module raises.
\<close>

theorem get_home_id_absent_is_single_None:
  assumes "TIBER_TOKEN e = Some token"
    and "case requests_send e (sent w) (graphql_post e token home_query JNull) of
           HTTPError code body \<Rightarrow> True
         | RequestException msg \<Rightarrow> True
         | Response data \<Rightarrow>
             lacks ''data'' data
           \<or> (case getitems data [''data''] of Inr d \<Rightarrow> lacks ''viewer'' d | Inl err \<Rightarrow> False)
           \<or> (case getitems data [''data'', ''viewer''] of Inr v \<Rightarrow> lacks ''homes'' v | Inl err \<Rightarrow> False)
           \<or> getitems data [''data'', ''viewer'', ''homes''] = Inr (JArr [])"
  shows "fst (get_home_id e w) = Inr PyNone
       \<and> PyNone \<noteq> PyTuple [JNull, JNull]
       \<and> unpack2 PyNone = Inl (TypeError ''cannot unpack non-iterable NoneType object'')
       \<and> fst (main_energy e w) = Inl (TypeError ''cannot unpack non-iterable NoneType object'')"
proof -
  have "\<exists>data w'. make_graphql_request e home_query JNull w = (Inr data, w') \<and> get_home_id_of data = Inr PyNone"
    using assms
    by (cases "requests_send e (sent w) (graphql_post e token home_query JNull)")
       (auto simp: make_graphql_request_def Let_def intro!: get_home_id_of_absent)
  then obtain data w' where r: "make_graphql_request e home_query JNull w = (Inr data, w')"
    and n: "get_home_id_of data = Inr PyNone" by blast
  have g: "get_home_id e w = (Inr PyNone, w')"
    using r n by (simp add: get_home_id_def then_pure_def)
  show ?thesis using g by (simp add: main_energy_def)
qed

theorem get_home_id_first_home_witness:
  "fst (get_home_id (scenario_env (Response home_response)) world0)
     = Inr (PyTuple [JStr ''h1'', JStr ''Main St''])
   \<and> fst (get_home_id (scenario_env (Response no_homes_response)) world0) = Inr PyNone"
proof -
  let ?w = "world0\<lparr>sent := [graphql_post (scenario_env (Response home_response)) ''token'' home_query JNull]\<rparr>"
  let ?w2 = "world0\<lparr>sent := [graphql_post (scenario_env (Response no_homes_response)) ''token'' home_query JNull]\<rparr>"
  let ?h = "JObj [(''id'', JStr ''h1''),
             (''address'', JObj [(''address1'', JStr ''Main St''), (''city'', JStr ''X''),
                                 (''postalCode'', JStr ''1''), (''country'', JStr ''NL'')])]"
  have r: "make_graphql_request (scenario_env (Response home_response)) home_query JNull world0
             = (Inr home_response, ?w)"
    by (simp add: make_graphql_request_def scenario_env_def world0_def)
  have r2: "make_graphql_request (scenario_env (Response no_homes_response)) home_query JNull world0
             = (Inr no_homes_response, ?w2)"
    by (simp add: make_graphql_request_def scenario_env_def world0_def)
  have a: "getitems home_response [''data'', ''viewer'', ''homes''] = Inr (JArr (?h # []))"
    by (simp add: home_response_def ebind_def)
  have b: "getitem ?h ''id'' = Inr (JStr ''h1'')" by simp
  have c: "getitems ?h [''address'', ''address1''] = Inr (JStr ''Main St'')" by (simp add: ebind_def)
  have d: "getitems ?h [''address'', ''city''] = Inr (JStr ''X'')" by (simp add: ebind_def)
  have z: "getitems no_homes_response [''data'', ''viewer'', ''homes''] = Inr (JArr [])"
    by (simp add: no_homes_response_def ebind_def)
  from get_home_id_first_home [OF r, of ?h "[]" "JStr ''h1''" "JStr ''Main St''" "JStr ''X''"] a b c d
  have 1: "get_home_id (scenario_env (Response home_response)) world0
             = (Inr (PyTuple [JStr ''h1'', JStr ''Main St'']), ?w)" by blast
  from get_home_id_first_home [OF r2] z
  have 2: "get_home_id (scenario_env (Response no_homes_response)) world0 = (Inr PyNone, ?w2)" by blast
  show ?thesis using 1 2 by simp
qed

theorem get_home_id_absent_is_single_None_witness:
  "fst (get_home_id (scenario_env (Response no_homes_response)) world0) = Inr PyNone
   \<and> fst (main_energy (scenario_env (Response no_homes_response)) world0)
       = Inl (TypeError ''cannot unpack non-iterable NoneType object'')
   \<and> fst (main_energy (scenario_env (HTTPError 401 ''Unauthorized'')) world0)
       = Inl (TypeError ''cannot unpack non-iterable NoneType object'')"
proof -
  have t: "\<And>out. TIBER_TOKEN (scenario_env out) = Some ''token''" by (simp add: scenario_env_def)
  have o1: "\<And>r. requests_send (scenario_env (Response no_homes_response)) (sent world0) r = Response no_homes_response"
    by (simp add: scenario_env_def)
  have o2: "\<And>r. requests_send (scenario_env (HTTPError 401 ''Unauthorized'')) (sent world0) r = HTTPError 401 ''Unauthorized''"
    by (simp add: scenario_env_def)
  have z: "getitems no_homes_response [''data'', ''viewer'', ''homes''] = Inr (JArr [])"
    by (simp add: no_homes_response_def ebind_def)
  have 1: "fst (get_home_id (scenario_env (Response no_homes_response)) world0) = Inr PyNone
       \<and> fst (main_energy (scenario_env (Response no_homes_response)) world0)
       = Inl (TypeError ''cannot unpack non-iterable NoneType object'')"
    using get_home_id_absent_is_single_None [OF t, of "Response no_homes_response" world0] z
    by (simp add: o1)
  have 2: "fst (main_energy (scenario_env (HTTPError 401 ''Unauthorized'')) world0)
       = Inl (TypeError ''cannot unpack non-iterable NoneType object'')"
    using get_home_id_absent_is_single_None [OF t, of "HTTPError 401 ''Unauthorized''" world0]
    by (simp add: o2)
  show ?thesis using 1 2 by simp
qed

lemma ebind_InrE:
  assumes "ebind m f = Inr y"
  obtains x where "m = Inr x" and "f x = Inr y"
  using assms by (cases m) (simp_all add: ebind_def)

lemma then_pure_InrE:
  assumes "then_pure r f = (Inr y, w')"
  obtains x where "r = (Inr x, w')" and "f x = Inr y"
  using assms by (cases r; cases "fst r") (auto simp: then_pure_def)

subsection \<open>Sorted tables\<close>

lemma infer_dtypes_Nil [simp]: "infer_dtypes [] = []"
  by (simp add: infer_dtypes_def)

lemma length_infer_dtypes [simp]: "length (infer_dtypes df) = length df"
  by (simp add: infer_dtypes_def)

lemma map_fst_infer_dtypes:
  "r \<in> set (infer_dtypes df) \<Longrightarrow> \<exists>r0\<in>set df. map fst r = map fst r0"
  by (auto simp: infer_dtypes_def comp_def)

lemma keep_first_subset: "set (keep_first key seen xs) \<subseteq> set xs"
  by (induction xs arbitrary: seen) auto

lemma row_get_row_set_same [simp]: "row_get c (row_set c v r) = v"
  by (induction r) (auto simp: row_get_def)

lemma row_get_row_set_other [simp]: "k \<noteq> c \<Longrightarrow> row_get k (row_set c v r) = row_get k r"
  by (induction r) (auto simp: row_get_def)

lemma df_setcol_Inr:
  assumes "df_setcol c vs df = Inr df'"
  shows "length df' = length df \<and> length vs = length df
       \<and> (\<forall>i<length df. df' ! i = row_set c (vs ! i) (df ! i))"
  using assms by (auto simp: df_setcol_def split: if_splits)

lemma df_to_datetime_Inr:
  assumes "df_to_datetime e utc c df = Inr df'"
  shows "length df' = length df
       \<and> (\<forall>i<length df. \<exists>t. df' ! i = row_set c (time_cell t) (df ! i))"
proof -
  from assms obtain col ts where "to_datetime e utc col = Some ts"
    and s: "df_setcol c (map time_cell ts) df = Inr df'"
    by (auto simp: df_to_datetime_def elim!: ebind_InrE split: option.splits)
  from df_setcol_Inr [OF s] show ?thesis by auto
qed

lemma map_fst_record_row: "map fst (record_row cols r) = cols"
  by (simp add: record_row_def comp_def)

lemma infer_dtypes_uniform:
  "\<forall>r\<in>set df. map fst r = cols \<Longrightarrow> \<forall>r\<in>set (infer_dtypes df). map fst r = cols"
  using map_fst_infer_dtypes by metis

lemma DataFrame_records_uniform:
  assumes "DataFrame_records xs = Inr df"
  shows "\<exists>cols. \<forall>r\<in>set df. map fst r = cols"
proof -
  from assms obtain rs cols where df: "df = infer_dtypes (map (record_row cols) rs)"
    by (auto simp: DataFrame_records_def split: option.splits)
  have "\<forall>r\<in>set (map (record_row cols) rs). map fst r = cols"
    by (simp add: map_fst_record_row)
  then have "\<forall>r\<in>set df. map fst r = cols" unfolding df by (rule infer_dtypes_uniform)
  then show ?thesis by blast
qed

lemma DataFrame_columns_uniform:
  assumes "DataFrame_columns kvs = Inr df"
  shows "\<exists>cols. \<forall>r\<in>set df. map fst r = cols"
proof (cases "as_columns kvs")
  case None
  with assms show ?thesis by (simp add: DataFrame_columns_def)
next
  case (Some cs)
  show ?thesis
  proof (cases cs)
    case Nil
    with assms Some show ?thesis by (simp add: DataFrame_columns_def)
  next
    case (Cons c cs')
    obtain k xs where c: "c = (k, xs)" by (cases c)
    let ?raw = "map (\<lambda>i. map (\<lambda>c. (fst c, Val (snd c ! i))) (c # cs')) [0..<length xs]"
    from assms Some Cons c have df: "df = infer_dtypes ?raw"
      by (simp add: DataFrame_columns_def split: if_splits)
    have "\<forall>r\<in>set ?raw. map fst r = map fst (c # cs')"
      by (simp add: comp_def)
    then have "\<forall>r\<in>set df. map fst r = map fst (c # cs')"
      unfolding df by (rule infer_dtypes_uniform)
    then show ?thesis by blast
  qed
qed

lemma DataFrame_uniform:
  "DataFrame x = Inr df \<Longrightarrow> \<exists>cols. \<forall>r\<in>set df. map fst r = cols"
  by (cases x) (simp_all add: DataFrame_records_uniform DataFrame_columns_uniform)

lemma df_empty_no_columns:
  assumes "df_empty df" and "\<forall>r\<in>set df. map fst r = cols"
  shows "\<forall>r\<in>set df. r = []"
proof (cases df)
  case Nil
  then show ?thesis by simp
next
  case (Cons r0 rs)
  with assms have "cols = []" by (auto simp: df_empty_def)
  with assms(2) show ?thesis by simp
qed

lemma sorted_no_columns:
  "\<forall>r\<in>set df. r = [] \<Longrightarrow> sorted (map (ts_key c) df)"
  by (induction df) auto

lemma sorted_empty_frame:
  assumes "df_empty df" and "\<exists>cols. \<forall>r\<in>set df. map fst r = cols"
  shows "sorted (map (ts_key c) df)"
  using assms df_empty_no_columns sorted_no_columns by blast

lemma sort_values_sorted:
  "sort_values c df = Inr df' \<Longrightarrow> sorted (map (ts_key c) df')"
  by (auto simp: sort_values_def split: if_splits)

lemma prices_frame_sorted:
  assumes "prices_frame e prices = Inr df"
  shows "sorted (map (ts_key ''startsAt'') df)"
proof -
  from assms obtain df0 where 0: "DataFrame_records prices = Inr df0"
    and 1: "(if \<not> df_empty df0 then
         ebind (df_to_datetime e False ''startsAt'' df0) (\<lambda>df1.
         ebind (drop_duplicates ''startsAt'' df1) (sort_values ''startsAt''))
       else Inr df0) = Inr df"
    unfolding prices_frame_def by (rule ebind_InrE)
  show ?thesis
  proof (cases "df_empty df0")
    case True
    with 1 have "df = df0" by simp
    with True 0 show ?thesis by (simp add: sorted_empty_frame DataFrame_records_uniform)
  next
    case False
    with 1 obtain df2 where "sort_values ''startsAt'' df2 = Inr df"
      by (auto elim!: ebind_InrE)
    then show ?thesis by (rule sort_values_sorted)
  qed
qed

lemma consumption_frame_sorted:
  assumes "consumption_frame e cd = Inr df"
  shows "sorted (map (ts_key ''from'') df)"
proof -
  from assms obtain df0 where 0: "DataFrame cd = Inr df0"
    and 1: "(if \<not> df_empty df0 then
         ebind (df_to_datetime e False ''from'' df0) (\<lambda>df1.
         ebind (df_to_datetime e False ''to'' df1) (\<lambda>df2.
         ebind (df_getcol ''unitPrice'' df2) (\<lambda>a.
         ebind (df_getcol ''unitPriceVAT'' df2) (\<lambda>b.
         ebind (column_add e a b) (\<lambda>total.
         ebind (df_setcol ''totalPrice'' total df2) (sort_values ''from''))))))
       else Inr df0) = Inr df"
    unfolding consumption_frame_def by (rule ebind_InrE)
  show ?thesis
  proof (cases "df_empty df0")
    case True
    with 1 have "df = df0" by simp
    with True 0 show ?thesis by (simp add: sorted_empty_frame DataFrame_uniform)
  next
    case False
    with 1 obtain df3 where "sort_values ''from'' df3 = Inr df"
      by (auto elim!: ebind_InrE)
    then show ?thesis by (rule sort_values_sorted)
  qed
qed

lemma hourly_frame_sorted:
  assumes "hourly_frame e data = Inr df"
  shows "sorted (map (ts_key ''timestamp'') df)"
proof (cases "truthy data")
  case False
  with assms show ?thesis by (simp add: hourly_frame_def)
next
  case True
  with assms obtain has_hourly where h: "py_in ''hourly'' data = Inr has_hourly"
    and 1: "(if \<not> has_hourly then Inr []
        else
          ebind (ebind (getitem data ''hourly'') DataFrame) (\<lambda>df.
            if \<not> df_empty df then
              ebind (df_rename ''time'' ''timestamp'' df) (\<lambda>df1.
              ebind (df_to_datetime e True ''timestamp'' df1) (\<lambda>df2.
              ebind (ebind (df_getcol ''weather_code'' df2) (\<lambda>col. sequence (map weather_description col)))
                (\<lambda>descriptions.
              ebind (df_setcol ''weather_description'' descriptions df2) (\<lambda>df3.
              ebind (ebind (df_getcol ''wind_direction_10m'' df3) (\<lambda>col. sequence (map wind_direction_cell col)))
                (\<lambda>cardinals.
              ebind (df_setcol ''wind_direction_cardinal'' cardinals df3) (\<lambda>df4.
                sort_values ''timestamp'' df4))))))
            else Inr df)) = Inr df"
    unfolding hourly_frame_def by (auto elim!: ebind_InrE)
  show ?thesis
  proof (cases has_hourly)
    case False
    with 1 show ?thesis by simp
  next
    case True
    with 1 obtain hourly df0 where 0: "DataFrame hourly = Inr df0"
      and 2: "(if \<not> df_empty df0 then
              ebind (df_rename ''time'' ''timestamp'' df0) (\<lambda>df1.
              ebind (df_to_datetime e True ''timestamp'' df1) (\<lambda>df2.
              ebind (ebind (df_getcol ''weather_code'' df2) (\<lambda>col. sequence (map weather_description col)))
                (\<lambda>descriptions.
              ebind (df_setcol ''weather_description'' descriptions df2) (\<lambda>df3.
              ebind (ebind (df_getcol ''wind_direction_10m'' df3) (\<lambda>col. sequence (map wind_direction_cell col)))
                (\<lambda>cardinals.
              ebind (df_setcol ''wind_direction_cardinal'' cardinals df3) (\<lambda>df4.
                sort_values ''timestamp'' df4))))))
            else Inr df0) = Inr df"
      by (auto elim!: ebind_InrE)
    show ?thesis
    proof (cases "df_empty df0")
      case True
      with 2 have "df = df0" by simp
      with True 0 show ?thesis by (simp add: sorted_empty_frame DataFrame_uniform)
    next
      case False
      with 2 obtain df4 where "sort_values ''timestamp'' df4 = Inr df"
        by (auto elim!: ebind_InrE)
      then show ?thesis by (rule sort_values_sorted)
    qed
  qed
qed

lemma get_hourly_forecast_sorted:
  assumes "get_hourly_forecast e n p w = (Inr df, w')"
  shows "sorted (map (ts_key ''timestamp'') df)"
  using assms
  by (cases "requests_send e (sent w) (GET OPENMETEO_API_URL (forecast_params e n p))")
     (auto simp: get_hourly_forecast_def Let_def hourly_frame_sorted)

lemma df_setcol_other:
  assumes "df_setcol c vs df = Inr df'" and "k \<noteq> c" and "\<forall>r\<in>set df. P (row_get k r)"
  shows "\<forall>r\<in>set df'. P (row_get k r)"
proof
  fix r assume "r \<in> set df'"
  then obtain i where i: "i < length df'" "df' ! i = r" by (auto simp: in_set_conv_nth)
  from df_setcol_Inr [OF assms(1)] i have "r = row_set c (vs ! i) (df ! i)" "i < length df"
    by auto
  with assms(2,3) show "P (row_get k r)" by simp
qed

lemma df_to_datetime_other:
  assumes "df_to_datetime e utc c df = Inr df'" and "k \<noteq> c" and "\<forall>r\<in>set df. P (row_get k r)"
  shows "\<forall>r\<in>set df'. P (row_get k r)"
proof -
  from assms(1) obtain vs where "df_setcol c vs df = Inr df'"
    by (auto simp: df_to_datetime_def elim!: ebind_InrE split: option.splits)
  then show ?thesis using assms(2,3) by (rule df_setcol_other)
qed

lemma df_to_datetime_time_cells:
  assumes "df_to_datetime e utc c df = Inr df'"
  shows "\<forall>r\<in>set df'. \<exists>t. row_get c r = time_cell t"
proof
  fix r assume "r \<in> set df'"
  then obtain i where i: "i < length df'" "df' ! i = r" by (auto simp: in_set_conv_nth)
  with df_to_datetime_Inr [OF assms] obtain t where "r = row_set c (time_cell t) (df ! i)"
    by auto
  then show "\<exists>t. row_get c r = time_cell t" by auto
qed

lemma sort_values_set:
  "sort_values c df = Inr df' \<Longrightarrow> set df' = set df"
  by (auto simp: sort_values_def split: if_splits)

lemma drop_duplicates_subset:
  "drop_duplicates c df = Inr df' \<Longrightarrow> set df' \<subseteq> set df"
  using keep_first_subset by (fastforce simp: drop_duplicates_def split: if_splits)

lemma prices_frame_time_cells:
  assumes "prices_frame e prices = Inr df" and "\<not> df_empty df"
  shows "\<forall>r\<in>set df. \<exists>t. row_get ''startsAt'' r = time_cell t"
proof -
  from assms(1) obtain df0 where
    1: "(if \<not> df_empty df0 then
         ebind (df_to_datetime e False ''startsAt'' df0) (\<lambda>df1.
         ebind (drop_duplicates ''startsAt'' df1) (sort_values ''startsAt''))
       else Inr df0) = Inr df"
    unfolding prices_frame_def by (rule ebind_InrE)
  have "\<not> df_empty df0" using 1 assms(2) by (cases "df_empty df0") auto
  with 1 obtain df1 df2 where a: "df_to_datetime e False ''startsAt'' df0 = Inr df1"
    and b: "drop_duplicates ''startsAt'' df1 = Inr df2"
    and c: "sort_values ''startsAt'' df2 = Inr df"
    by (auto elim!: ebind_InrE)
  from sort_values_set [OF c] drop_duplicates_subset [OF b] have "set df \<subseteq> set df1" by simp
  with df_to_datetime_time_cells [OF a] show ?thesis by blast
qed

lemma consumption_frame_time_cells:
  assumes "consumption_frame e cd = Inr df" and "\<not> df_empty df"
  shows "\<forall>r\<in>set df. \<exists>t. row_get ''from'' r = time_cell t"
proof -
  from assms(1) obtain df0 where
    1: "(if \<not> df_empty df0 then
         ebind (df_to_datetime e False ''from'' df0) (\<lambda>df1.
         ebind (df_to_datetime e False ''to'' df1) (\<lambda>df2.
         ebind (df_getcol ''unitPrice'' df2) (\<lambda>a.
         ebind (df_getcol ''unitPriceVAT'' df2) (\<lambda>b.
         ebind (column_add e a b) (\<lambda>total.
         ebind (df_setcol ''totalPrice'' total df2) (sort_values ''from''))))))
       else Inr df0) = Inr df"
    unfolding consumption_frame_def by (rule ebind_InrE)
  have "\<not> df_empty df0" using 1 assms(2) by (cases "df_empty df0") auto
  with 1 obtain df1 df2 total df3 where a: "df_to_datetime e False ''from'' df0 = Inr df1"
    and b: "df_to_datetime e False ''to'' df1 = Inr df2"
    and c: "df_setcol ''totalPrice'' total df2 = Inr df3"
    and d: "sort_values ''from'' df3 = Inr df"
    by (auto elim!: ebind_InrE)
  have "\<forall>r\<in>set df1. \<exists>t. row_get ''from'' r = time_cell t"
    using a by (rule df_to_datetime_time_cells)
  then have "\<forall>r\<in>set df2. \<exists>t. row_get ''from'' r = time_cell t"
    using df_to_datetime_other [OF b, of "''from''" "\<lambda>c. \<exists>t. c = time_cell t"] by simp
  then have "\<forall>r\<in>set df3. \<exists>t. row_get ''from'' r = time_cell t"
    using df_setcol_other [OF c, of "''from''" "\<lambda>c. \<exists>t. c = time_cell t"] by simp
  with sort_values_set [OF d] show ?thesis by simp
qed

lemma hourly_frame_time_cells:
  assumes "hourly_frame e data = Inr df" and "\<not> df_empty df"
  shows "\<forall>r\<in>set df. \<exists>t. row_get ''timestamp'' r = time_cell t"
proof -
  have ne: "df \<noteq> []" using assms(2) by (auto simp: df_empty_def)
  have t: "truthy data" using assms(1) ne by (cases "truthy data") (auto simp: hourly_frame_def)
  with assms(1) obtain has_hourly where
    1: "(if \<not> has_hourly then Inr []
        else
          ebind (ebind (getitem data ''hourly'') DataFrame) (\<lambda>df.
            if \<not> df_empty df then
              ebind (df_rename ''time'' ''timestamp'' df) (\<lambda>df1.
              ebind (df_to_datetime e True ''timestamp'' df1) (\<lambda>df2.
              ebind (ebind (df_getcol ''weather_code'' df2) (\<lambda>col. sequence (map weather_description col)))
                (\<lambda>descriptions.
              ebind (df_setcol ''weather_description'' descriptions df2) (\<lambda>df3.
              ebind (ebind (df_getcol ''wind_direction_10m'' df3) (\<lambda>col. sequence (map wind_direction_cell col)))
                (\<lambda>cardinals.
              ebind (df_setcol ''wind_direction_cardinal'' cardinals df3) (\<lambda>df4.
                sort_values ''timestamp'' df4))))))
            else Inr df)) = Inr df"
    unfolding hourly_frame_def by (auto elim!: ebind_InrE)
  have has_hourly using 1 ne by (cases has_hourly) auto
  with 1 obtain df0 where
    2: "(if \<not> df_empty df0 then
              ebind (df_rename ''time'' ''timestamp'' df0) (\<lambda>df1.
              ebind (df_to_datetime e True ''timestamp'' df1) (\<lambda>df2.
              ebind (ebind (df_getcol ''weather_code'' df2) (\<lambda>col. sequence (map weather_description col)))
                (\<lambda>descriptions.
              ebind (df_setcol ''weather_description'' descriptions df2) (\<lambda>df3.
              ebind (ebind (df_getcol ''wind_direction_10m'' df3) (\<lambda>col. sequence (map wind_direction_cell col)))
                (\<lambda>cardinals.
              ebind (df_setcol ''wind_direction_cardinal'' cardinals df3) (\<lambda>df4.
                sort_values ''timestamp'' df4))))))
            else Inr df0) = Inr df"
    by (auto elim!: ebind_InrE)
  have "\<not> df_empty df0" using 2 assms(2) by (cases "df_empty df0") auto
  with 2 obtain df1 df2 descriptions df3 cardinals df4 where
    a: "df_to_datetime e True ''timestamp'' df1 = Inr df2"
    and b: "df_setcol ''weather_description'' descriptions df2 = Inr df3"
    and c: "df_setcol ''wind_direction_cardinal'' cardinals df3 = Inr df4"
    and d: "sort_values ''timestamp'' df4 = Inr df"
    by (auto elim!: ebind_InrE)
  have "\<forall>r\<in>set df2. \<exists>t. row_get ''timestamp'' r = time_cell t"
    using a by (rule df_to_datetime_time_cells)
  then have "\<forall>r\<in>set df3. \<exists>t. row_get ''timestamp'' r = time_cell t"
    using df_setcol_other [OF b, of "''timestamp''" "\<lambda>c. \<exists>t. c = time_cell t"] by simp
  then have "\<forall>r\<in>set df4. \<exists>t. row_get ''timestamp'' r = time_cell t"
    using df_setcol_other [OF c, of "''timestamp''" "\<lambda>c. \<exists>t. c = time_cell t"] by simp
  with sort_values_set [OF d] show ?thesis by simp
qed

lemma get_hourly_forecast_time_cells:
  assumes "get_hourly_forecast e n p w = (Inr df, w')" and "\<not> df_empty df"
  shows "\<forall>r\<in>set df. \<exists>t. row_get ''timestamp'' r = time_cell t"
proof (cases "requests_send e (sent w) (GET OPENMETEO_API_URL (forecast_params e n p))")
  case (Response data)
  with assms(1) have "hourly_frame e data = Inr df"
    by (simp add: get_hourly_forecast_def Let_def)
  then show ?thesis using assms(2) by (rule hourly_frame_time_cells)
next
  case (HTTPError code body)
  with assms show ?thesis by (simp add: get_hourly_forecast_def Let_def)
next
  case (RequestException msg)
  with assms show ?thesis by (simp add: get_hourly_forecast_def Let_def)
qed

text \<open>
  C10. Every table that the price, the consumption or the forecast function returns
  is sorted ascending by its timestamp column (\<^verbatim>\<open>startsAt\<close>, \<^verbatim>\<open>from\<close>, \<^verbatim>\<open>timestamp\<close>): unless
  the table is empty, every cell of that column is a parsed instant or \<^verbatim>\<open>NaT\<close>, and the
  rows stand in ascending order of their instants, the rows with \<^verbatim>\<open>NaT\<close> last.
\<close>

theorem returned_tables_sorted:
  "(get_current_and_upcoming_prices e home_id w = (Inr df, w')
      \<longrightarrow> sorted (map (ts_key ''startsAt'') df)
        \<and> (\<not> df_empty df \<longrightarrow> (\<forall>r\<in>set df. \<exists>t. row_get ''startsAt'' r = time_cell t)))
   \<and> (get_historical_consumption e home_id num_hours w = (Inr df, w')
      \<longrightarrow> sorted (map (ts_key ''from'') df)
        \<and> (\<not> df_empty df \<longrightarrow> (\<forall>r\<in>set df. \<exists>t. row_get ''from'' r = time_cell t)))
   \<and> (get_hourly_forecast e num_hours past_hours w = (Inr df, w')
      \<longrightarrow> sorted (map (ts_key ''timestamp'') df)
        \<and> (\<not> df_empty df \<longrightarrow> (\<forall>r\<in>set df. \<exists>t. row_get ''timestamp'' r = time_cell t)))"
proof (intro conjI impI)
  assume "get_current_and_upcoming_prices e home_id w = (Inr df, w')"
  then obtain prices where p: "prices_frame e prices = Inr df"
    by (auto simp: get_current_and_upcoming_prices_def elim!: then_pure_InrE ebind_InrE)
  show "sorted (map (ts_key ''startsAt'') df)" using p by (rule prices_frame_sorted)
  show "\<forall>r\<in>set df. \<exists>t. row_get ''startsAt'' r = time_cell t" if "\<not> df_empty df"
    using p that by (rule prices_frame_time_cells)
next
  assume "get_historical_consumption e home_id num_hours w = (Inr df, w')"
  then obtain cd where c: "consumption_frame e cd = Inr df"
    by (auto simp: get_historical_consumption_def elim!: then_pure_InrE ebind_InrE)
  show "sorted (map (ts_key ''from'') df)" using c by (rule consumption_frame_sorted)
  show "\<forall>r\<in>set df. \<exists>t. row_get ''from'' r = time_cell t" if "\<not> df_empty df"
    using c that by (rule consumption_frame_time_cells)
next
  assume h: "get_hourly_forecast e num_hours past_hours w = (Inr df, w')"
  show "sorted (map (ts_key ''timestamp'') df)" using h by (rule get_hourly_forecast_sorted)
  show "\<forall>r\<in>set df. \<exists>t. row_get ''timestamp'' r = time_cell t" if "\<not> df_empty df"
    using h that by (rule get_hourly_forecast_time_cells)
qed

theorem returned_tables_sorted_witness:
  "(\<exists>w'. get_current_and_upcoming_prices (scenario_env (Response guarded_price_response))
               (JStr ''h1'') world0 = (Inr guarded_price_frame, w'))
   \<and> \<not> df_empty guarded_price_frame
   \<and> sorted (map (ts_key ''startsAt'') guarded_price_frame)
   \<and> (\<exists>t. row_get ''startsAt'' (guarded_price_frame ! 1) = time_cell t)
   \<and> (\<exists>w'. get_historical_consumption (scenario_env (Response guarded_consumption_response))
               (JStr ''h1'') 720 world0 = (Inr guarded_consumption_frame, w'))
   \<and> \<not> df_empty guarded_consumption_frame
   \<and> sorted (map (ts_key ''from'') guarded_consumption_frame)
   \<and> (\<exists>t. row_get ''from'' (guarded_consumption_frame ! 1) = time_cell t)
   \<and> (\<exists>w'. get_hourly_forecast (scenario_env (Response forecast_response)) 72 0 world0
               = (Inr forecast_frame, w'))
   \<and> \<not> df_empty forecast_frame
   \<and> sorted (map (ts_key ''timestamp'') forecast_frame)
   \<and> (\<exists>t. row_get ''timestamp'' (forecast_frame ! 1) = time_cell t)"
proof -
  have "fst (get_current_and_upcoming_prices (scenario_env (Response guarded_price_response))
               (JStr ''h1'') world0) = Inr guarded_price_frame"
    by code_simp
  then obtain w1 where 1: "get_current_and_upcoming_prices (scenario_env (Response guarded_price_response))
               (JStr ''h1'') world0 = (Inr guarded_price_frame, w1)"
    by (metis prod.collapse)
  have "fst (get_historical_consumption (scenario_env (Response guarded_consumption_response))
               (JStr ''h1'') 720 world0) = Inr guarded_consumption_frame"
    by code_simp
  then obtain w2 where 2: "get_historical_consumption (scenario_env (Response guarded_consumption_response))
               (JStr ''h1'') 720 world0 = (Inr guarded_consumption_frame, w2)"
    by (metis prod.collapse)
  have "fst (get_hourly_forecast (scenario_env (Response forecast_response)) 72 0 world0)
          = Inr forecast_frame"
    by code_simp
  then obtain w3 where 3: "get_hourly_forecast (scenario_env (Response forecast_response)) 72 0 world0
          = (Inr forecast_frame, w3)"
    by (metis prod.collapse)
  have n: "\<not> df_empty guarded_price_frame" "\<not> df_empty guarded_consumption_frame"
    "\<not> df_empty forecast_frame"
    by (simp_all add: df_empty_def guarded_price_frame_def guarded_consumption_frame_def
        forecast_frame_def)
  have m: "guarded_price_frame ! 1 \<in> set guarded_price_frame"
    "guarded_consumption_frame ! 1 \<in> set guarded_consumption_frame"
    "forecast_frame ! 1 \<in> set forecast_frame"
    by (simp_all add: guarded_price_frame_def guarded_consumption_frame_def forecast_frame_def)
  from returned_tables_sorted
    [where e = "scenario_env (Response guarded_price_response)" and home_id = "JStr ''h1''"
       and w = world0 and df = guarded_price_frame and w' = w1] 1 n(1) m(1)
  have s1: "sorted (map (ts_key ''startsAt'') guarded_price_frame)
     \<and> (\<exists>t. row_get ''startsAt'' (guarded_price_frame ! 1) = time_cell t)" by blast
  from returned_tables_sorted
    [where e = "scenario_env (Response guarded_consumption_response)" and home_id = "JStr ''h1''"
       and num_hours = 720 and w = world0 and df = guarded_consumption_frame and w' = w2] 2 n(2) m(2)
  have s2: "sorted (map (ts_key ''from'') guarded_consumption_frame)
     \<and> (\<exists>t. row_get ''from'' (guarded_consumption_frame ! 1) = time_cell t)" by blast
  from returned_tables_sorted
    [where e = "scenario_env (Response forecast_response)" and num_hours = 72 and past_hours = 0
       and w = world0 and df = forecast_frame and w' = w3] 3 n(3) m(3)
  have s3: "sorted (map (ts_key ''timestamp'') forecast_frame)
     \<and> (\<exists>t. row_get ''timestamp'' (forecast_frame ! 1) = time_cell t)" by blast
  show ?thesis using 1 2 3 n s1 s2 s3 by blast
qed

subsection \<open>Configuration error and failed requests\<close>

lemma ebind_InlE:
  assumes "ebind m f = Inl err"
  obtains "m = Inl err" | x where "m = Inr x" and "f x = Inl err"
  using assms by (cases m) (simp_all add: ebind_def)

lemma and_then_InlE:
  assumes "and_then a b = Inl err"
  obtains "a = Inl err" | "b = Inl err"
  using assms by (cases a) (auto simp: and_then_def split: if_splits)

lemma getitem_no_ValueError [simp]: "getitem x k \<noteq> Inl (ValueError s)"
  by (cases x) (auto split: option.splits)

lemma getitems_no_ValueError [simp]: "getitems x ks \<noteq> Inl (ValueError s)"
  by (induction ks arbitrary: x) (auto elim!: ebind_InlE)

lemma py_in_no_ValueError [simp]: "py_in k x \<noteq> Inl (ValueError s)"
  by (cases x) auto

lemma getitem0_no_ValueError [simp]: "getitem0 x \<noteq> Inl (ValueError s)"
  by (cases x) (auto split: list.splits)

lemma dict_get_no_ValueError [simp]: "dict_get x k \<noteq> Inl (ValueError s)"
  by (cases x) auto

lemma py_iter_no_ValueError [simp]: "py_iter x \<noteq> Inl (ValueError s)"
  by (cases x) auto

lemma get_home_id_of_no_ValueError: "get_home_id_of data \<noteq> Inl (ValueError s)"
  by (auto simp: get_home_id_of_def elim!: ebind_InlE and_then_InlE split: if_splits)

lemma home_guard_no_ValueError [simp]: "home_guard data \<noteq> Inl (ValueError s)"
  by (auto simp: home_guard_def elim!: ebind_InlE and_then_InlE split: if_splits)

lemma prices_of_no_ValueError: "prices_of data \<noteq> Inl (ValueError s)"
  by (auto simp: prices_of_def elim!: ebind_InlE split: if_splits)

lemma consumption_data_of_no_ValueError: "consumption_data_of data \<noteq> Inl (ValueError s)"
  by (auto simp: consumption_data_of_def elim!: ebind_InlE and_then_InlE split: if_splits)

lemma df_setcol_ValueError:
  "df_setcol c vs df = Inl (ValueError s) \<Longrightarrow> s = ''Length of values does not match length of index''"
  by (auto simp: df_setcol_def split: if_splits)

lemma df_getcol_no_ValueError [simp]: "df_getcol c df \<noteq> Inl (ValueError s)"
  by (auto simp: df_getcol_def)

lemma sort_values_no_ValueError [simp]: "sort_values c df \<noteq> Inl (ValueError s)"
  by (auto simp: sort_values_def)

lemma drop_duplicates_no_ValueError [simp]: "drop_duplicates c df \<noteq> Inl (ValueError s)"
  by (auto simp: drop_duplicates_def)

lemma DataFrame_records_no_ValueError [simp]: "DataFrame_records xs \<noteq> Inl (ValueError s)"
  by (auto simp: DataFrame_records_def split: option.splits)

lemma DataFrame_ValueError:
  "DataFrame x = Inl (ValueError s) \<Longrightarrow> s = ''All arrays must be of the same length''"
  by (cases x) (auto simp: DataFrame_columns_def split: option.splits list.splits if_splits)

lemma df_to_datetime_ValueError:
  "df_to_datetime e utc c df = Inl (ValueError s) \<Longrightarrow> s = ''Length of values does not match length of index''"
  by (auto simp: df_to_datetime_def elim!: ebind_InlE dest: df_setcol_ValueError split: option.splits)

lemma sequence_no_ValueError:
  "(\<And>m. m \<in> set ms \<Longrightarrow> m \<noteq> Inl (ValueError s)) \<Longrightarrow> sequence ms \<noteq> Inl (ValueError s)"
  by (induction ms) (auto elim!: ebind_InlE)

lemma cell_add_no_ValueError [simp]: "cell_add e a b \<noteq> Inl (ValueError s)"
  by (cases "(e, a, b)" rule: cell_add.cases) auto

lemma column_add_no_ValueError [simp]: "column_add e xs ys \<noteq> Inl (ValueError s)"
  unfolding column_add_def by (rule sequence_no_ValueError) auto

lemma prices_frame_not_token_unset: "prices_frame e prices \<noteq> Inl token_unset"
  by (auto simp: prices_frame_def token_unset_def elim!: ebind_InlE
      dest!: df_to_datetime_ValueError split: if_splits)

lemma consumption_frame_not_token_unset: "consumption_frame e cd \<noteq> Inl token_unset"
  by (auto simp: consumption_frame_def token_unset_def elim!: ebind_InlE
      dest!: df_to_datetime_ValueError df_setcol_ValueError DataFrame_ValueError split: if_splits)

lemma then_pure_Inl:
  "then_pure (Inl err, w) f = (Inl err, w)"
  by (simp add: then_pure_def)

lemma make_graphql_request_unset:
  "TIBER_TOKEN e = None \<Longrightarrow> make_graphql_request e q v w = (Inl token_unset, w)"
  by (simp add: make_graphql_request_def token_unset_def)

lemma make_graphql_request_set:
  "TIBER_TOKEN e = Some token \<Longrightarrow>
     \<exists>data. make_graphql_request e q v w = (Inr data, w\<lparr>sent := sent w @ [graphql_post e token q v]\<rparr>)
       \<and> (failed (requests_send e (sent w) (graphql_post e token q v)) \<longrightarrow> data = JNull)"
  by (cases "requests_send e (sent w) (graphql_post e token q v)")
     (auto simp: make_graphql_request_def Let_def)

lemma fst_then_pure: "fst (then_pure (Inr x, w) f) = f x"
  by (simp add: then_pure_def)

text \<open>
  C7. Each of the four operations of the energy client raises the configuration error
  exactly when the token is unset, and then the world is unchanged: no request has been
  sent. With the token set, a request that ends in an HTTP error status or in a network
  failure makes \<open>get_home_id\<close> and \<open>get_live_measurement\<close> return \<^verbatim>\<open>None\<close> and the
  two table functions return the frame without rows; the same failure of the forecast
  request makes both functions of the weather client return the frame without rows.
  None of them raises.
\<close>

theorem token_check_and_failed_requests:
  "(TIBER_TOKEN e = None \<longrightarrow>
      get_home_id e w = (Inl token_unset, w) \<and>
      get_current_and_upcoming_prices e home_id w = (Inl token_unset, w) \<and>
      get_historical_consumption e home_id num_hours w = (Inl token_unset, w) \<and>
      get_live_measurement e home_id w = (Inl token_unset, w))
   \<and> (TIBER_TOKEN e \<noteq> None \<longrightarrow>
      fst (get_home_id e w) \<noteq> Inl token_unset \<and>
      fst (get_current_and_upcoming_prices e home_id w) \<noteq> Inl token_unset \<and>
      fst (get_historical_consumption e home_id num_hours w) \<noteq> Inl token_unset \<and>
      fst (get_live_measurement e home_id w) \<noteq> Inl token_unset)
   \<and> (\<forall>token. TIBER_TOKEN e = Some token \<longrightarrow>
        (failed (requests_send e (sent w) (graphql_post e token home_query JNull))
           \<longrightarrow> fst (get_home_id e w) = Inr PyNone) \<and>
        (failed (requests_send e (sent w)
                   (graphql_post e token prices_query (JObj [(''homeId'', home_id)])))
           \<longrightarrow> fst (get_current_and_upcoming_prices e home_id w) = Inr []) \<and>
        (failed (requests_send e (sent w)
                   (graphql_post e token consumption_query
                      (JObj [(''homeId'', home_id), (''last'', JNum (of_int num_hours))])))
           \<longrightarrow> fst (get_historical_consumption e home_id num_hours w) = Inr []) \<and>
        (failed (requests_send e (sent w)
                   (graphql_post e token live_query (JObj [(''homeId'', home_id)])))
           \<longrightarrow> fst (get_live_measurement e home_id w) = Inr JNull))
   \<and> (failed (requests_send e (sent w) (GET OPENMETEO_API_URL (forecast_params e num_hours past_hours)))
        \<longrightarrow> fst (get_hourly_forecast e num_hours past_hours w) = Inr [])
   \<and> (failed (requests_send e (sent w) (GET OPENMETEO_API_URL (forecast_params e 1 0)))
        \<longrightarrow> fst (get_current_weather e w) = Inr [])"
proof (intro conjI impI allI)
  assume n: "TIBER_TOKEN e = None"
  show "get_home_id e w = (Inl token_unset, w)"
    by (simp add: get_home_id_def make_graphql_request_unset [OF n] then_pure_Inl)
  show "get_current_and_upcoming_prices e home_id w = (Inl token_unset, w)"
    by (simp add: get_current_and_upcoming_prices_def make_graphql_request_unset [OF n] then_pure_Inl)
  show "get_historical_consumption e home_id num_hours w = (Inl token_unset, w)"
    by (simp add: get_historical_consumption_def make_graphql_request_unset [OF n] then_pure_Inl)
  show "get_live_measurement e home_id w = (Inl token_unset, w)"
    by (simp add: get_live_measurement_def make_graphql_request_unset [OF n])
next
  assume "TIBER_TOKEN e \<noteq> None"
  then obtain token where t: "TIBER_TOKEN e = Some token" by auto
  show "fst (get_home_id e w) \<noteq> Inl token_unset"
    using make_graphql_request_set [OF t, of home_query JNull w]
    by (auto simp: get_home_id_def fst_then_pure token_unset_def get_home_id_of_no_ValueError)
  show "fst (get_current_and_upcoming_prices e home_id w) \<noteq> Inl token_unset"
    using make_graphql_request_set [OF t, of prices_query "JObj [(''homeId'', home_id)]" w]
      prices_frame_not_token_unset
    by (auto simp: get_current_and_upcoming_prices_def fst_then_pure token_unset_def
        prices_of_no_ValueError elim!: ebind_InlE)
  show "fst (get_historical_consumption e home_id num_hours w) \<noteq> Inl token_unset"
    using make_graphql_request_set [OF t, of consumption_query
        "JObj [(''homeId'', home_id), (''last'', JNum (of_int num_hours))]" w]
      consumption_frame_not_token_unset
    by (auto simp: get_historical_consumption_def fst_then_pure token_unset_def
        consumption_data_of_no_ValueError elim!: ebind_InlE)
  show "fst (get_live_measurement e home_id w) \<noteq> Inl token_unset"
    using make_graphql_request_set [OF t, of live_query "JObj [(''homeId'', home_id)]" w]
    by (auto simp: get_live_measurement_def)
next
  fix token
  assume t: "TIBER_TOKEN e = Some token"
  {
    assume "failed (requests_send e (sent w) (graphql_post e token home_query JNull))"
    then show "fst (get_home_id e w) = Inr PyNone"
      using make_graphql_request_set [OF t, of home_query JNull w]
      by (auto simp: get_home_id_def fst_then_pure get_home_id_of_def ebind_def and_then_def)
  }
  {
    assume "failed (requests_send e (sent w)
                   (graphql_post e token prices_query (JObj [(''homeId'', home_id)])))"
    then show "fst (get_current_and_upcoming_prices e home_id w) = Inr []"
      using make_graphql_request_set [OF t, of prices_query "JObj [(''homeId'', home_id)]" w]
      by (auto simp: get_current_and_upcoming_prices_def fst_then_pure prices_of_def home_guard_def
          prices_frame_def DataFrame_records_def df_empty_def ebind_def and_then_def)
  }
  {
    assume "failed (requests_send e (sent w)
                   (graphql_post e token consumption_query
                      (JObj [(''homeId'', home_id), (''last'', JNum (of_int num_hours))])))"
    then show "fst (get_historical_consumption e home_id num_hours w) = Inr []"
      using make_graphql_request_set [OF t, of consumption_query
          "JObj [(''homeId'', home_id), (''last'', JNum (of_int num_hours))]" w]
      by (auto simp: get_historical_consumption_def fst_then_pure consumption_data_of_def home_guard_def
          consumption_frame_def DataFrame_records_def df_empty_def ebind_def and_then_def)
  }
  {
    assume "failed (requests_send e (sent w)
                   (graphql_post e token live_query (JObj [(''homeId'', home_id)])))"
    then show "fst (get_live_measurement e home_id w) = Inr JNull"
      using make_graphql_request_set [OF t, of live_query "JObj [(''homeId'', home_id)]" w]
      by (auto simp: get_live_measurement_def)
  }
next
  assume "failed (requests_send e (sent w) (GET OPENMETEO_API_URL (forecast_params e num_hours past_hours)))"
  then show "fst (get_hourly_forecast e num_hours past_hours w) = Inr []"
    by (cases "requests_send e (sent w) (GET OPENMETEO_API_URL (forecast_params e num_hours past_hours))")
       (auto simp: get_hourly_forecast_def Let_def)
next
  assume "failed (requests_send e (sent w) (GET OPENMETEO_API_URL (forecast_params e 1 0)))"
  then show "fst (get_current_weather e w) = Inr []"
    by (cases "requests_send e (sent w) (GET OPENMETEO_API_URL (forecast_params e 1 0))")
       (auto simp: get_current_weather_def get_hourly_forecast_def Let_def df_empty_def)
qed

theorem token_check_and_failed_requests_witness:
  "get_home_id (unset_env (Response home_response)) world0 = (Inl token_unset, world0)
   \<and> get_live_measurement (unset_env (Response home_response)) (JStr ''h1'') world0
        = (Inl token_unset, world0)
   \<and> fst (get_home_id (scenario_env (Response home_response)) world0) \<noteq> Inl token_unset
   \<and> fst (get_home_id (scenario_env (HTTPError 401 ''Unauthorized'')) world0) = Inr PyNone
   \<and> fst (get_current_and_upcoming_prices (scenario_env (HTTPError 401 ''Unauthorized''))
             (JStr ''h1'') world0) = Inr []
   \<and> fst (get_historical_consumption (scenario_env (HTTPError 401 ''Unauthorized''))
             (JStr ''h1'') 720 world0) = Inr []
   \<and> fst (get_live_measurement (scenario_env (HTTPError 401 ''Unauthorized''))
             (JStr ''h1'') world0) = Inr JNull
   \<and> fst (get_hourly_forecast (scenario_env (RequestException ''timeout'')) 72 24 world0) = Inr []
   \<and> fst (get_current_weather (scenario_env (RequestException ''timeout'')) world0) = Inr []"
proof -
  have u: "TIBER_TOKEN (unset_env (Response home_response)) = None"
    by (simp add: unset_env_def)
  have t: "\<And>out. TIBER_TOKEN (scenario_env out) = Some ''token''"
    "\<And>out. TIBER_TOKEN (scenario_env out) \<noteq> None"
    by (simp_all add: scenario_env_def)
  have f: "\<And>out s r. requests_send (scenario_env out) s r = out"
    by (simp add: scenario_env_def)
  note a = token_check_and_failed_requests
    [where e = "unset_env (Response home_response)" and w = world0 and home_id = "JStr ''h1''"]
  note b = token_check_and_failed_requests
    [where e = "scenario_env (Response home_response)" and w = world0]
  note c = token_check_and_failed_requests
    [where e = "scenario_env (HTTPError 401 ''Unauthorized'')" and w = world0
       and home_id = "JStr ''h1''" and num_hours = 720]
  note d = token_check_and_failed_requests
    [where e = "scenario_env (RequestException ''timeout'')" and w = world0
       and num_hours = 72 and past_hours = 24]
  have 1: "get_home_id (unset_env (Response home_response)) world0 = (Inl token_unset, world0)"
    "get_live_measurement (unset_env (Response home_response)) (JStr ''h1'') world0
        = (Inl token_unset, world0)"
    using a u by blast+
  have 2: "fst (get_home_id (scenario_env (Response home_response)) world0) \<noteq> Inl token_unset"
    using b t(2) by blast
  have 3: "fst (get_home_id (scenario_env (HTTPError 401 ''Unauthorized'')) world0) = Inr PyNone"
    "fst (get_current_and_upcoming_prices (scenario_env (HTTPError 401 ''Unauthorized''))
             (JStr ''h1'') world0) = Inr []"
    "fst (get_historical_consumption (scenario_env (HTTPError 401 ''Unauthorized''))
             (JStr ''h1'') 720 world0) = Inr []"
    "fst (get_live_measurement (scenario_env (HTTPError 401 ''Unauthorized''))
             (JStr ''h1'') world0) = Inr JNull"
    using c t(1) by (simp_all add: f)
  have 4: "fst (get_hourly_forecast (scenario_env (RequestException ''timeout'')) 72 24 world0) = Inr []"
    "fst (get_current_weather (scenario_env (RequestException ''timeout'')) world0) = Inr []"
    using d by (simp_all add: f)
  show ?thesis using 1 2 3 4 by simp
qed

subsection \<open>Current weather\<close>

lemma DataFrame_columns_Inr:
  assumes "DataFrame_columns kvs = Inr df" and "as_columns kvs = Some cs"
    and "map_of cs k = Some xs"
  shows "length df = length xs \<and> (\<forall>r\<in>set df. r \<noteq> [])"
proof -
  from assms(3) obtain k0 xs0 cs' where cs: "cs = (k0, xs0) # cs'" by (cases cs) auto
  from assms(3) have m: "(k, xs) \<in> set cs" by (rule map_of_SomeD)
  let ?raw = "map (\<lambda>i. map (\<lambda>c. (fst c, Val (snd c ! i))) cs) [0..<length xs0]"
  from assms(1,2) cs have all: "\<forall>c\<in>set cs. length (snd c) = length xs0"
    and df: "df = infer_dtypes ?raw"
    by (auto simp: DataFrame_columns_def split: if_splits)
  from all m have l: "length xs = length xs0" by force
  have "\<forall>r\<in>set df. r \<noteq> []"
  proof
    fix r assume "r \<in> set df"
    with df obtain r0 where "r0 \<in> set ?raw" "map fst r = map fst r0"
      using map_fst_infer_dtypes by blast
    with cs show "r \<noteq> []" by auto
  qed
  with df l show ?thesis by simp
qed

lemma df_rename_Inr:
  "df_rename old new df = Inr df' \<Longrightarrow> length df' = length df"
  by (auto simp: df_rename_def split: if_splits)

lemma row_set_not_Nil [simp]: "row_set c v r \<noteq> []"
  by (cases r) (auto split: if_splits)

lemma df_setcol_rows:
  assumes "df_setcol c vs df = Inr df'"
  shows "length df' = length df \<and> (\<forall>r\<in>set df'. r \<noteq> [])"
proof -
  from assms have l: "length df' = length df"
    and n: "\<forall>i<length df. df' ! i = row_set c (vs ! i) (df ! i)"
    using df_setcol_Inr by blast+
  have "\<forall>r\<in>set df'. r \<noteq> []"
  proof
    fix r assume "r \<in> set df'"
    then obtain i where "i < length df'" "df' ! i = r" by (auto simp: in_set_conv_nth)
    with l n show "r \<noteq> []" by (metis row_set_not_Nil)
  qed
  with l show ?thesis by simp
qed

lemma sort_values_Inr:
  "sort_values c df = Inr df' \<Longrightarrow> length df' = length df \<and> set df' = set df"
  by (auto simp: sort_values_def split: if_splits)

lemma hourly_frame_rows:
  assumes h: "hourly_frame e data = Inr df"
    and g: "getitem data ''hourly'' = Inr (JObj kvs)"
    and c: "as_columns kvs = Some cs"
    and t: "map_of cs ''time'' = Some hours"
  shows "length df = length hours \<and> (hours \<noteq> [] \<longrightarrow> \<not> df_empty df)"
proof -
  note a = getitem_Inr [OF g]
  from h a g obtain df0 where 0: "DataFrame_columns kvs = Inr df0"
    and 1: "(if \<not> df_empty df0 then
              ebind (df_rename ''time'' ''timestamp'' df0) (\<lambda>df1.
              ebind (df_to_datetime e True ''timestamp'' df1) (\<lambda>df2.
              ebind (ebind (df_getcol ''weather_code'' df2) (\<lambda>col. sequence (map weather_description col)))
                (\<lambda>descriptions.
              ebind (df_setcol ''weather_description'' descriptions df2) (\<lambda>df3.
              ebind (ebind (df_getcol ''wind_direction_10m'' df3) (\<lambda>col. sequence (map wind_direction_cell col)))
                (\<lambda>cardinals.
              ebind (df_setcol ''wind_direction_cardinal'' cardinals df3) (\<lambda>df4.
                sort_values ''timestamp'' df4))))))
            else Inr df0) = Inr df"
    by (auto simp: hourly_frame_def elim!: ebind_InrE)
  note b = DataFrame_columns_Inr [OF 0 c t]
  show ?thesis
  proof (cases "df_empty df0")
    case True
    with 1 have "df = df0" by simp
    moreover from True b have "df0 = []" by (cases df0) (auto simp: df_empty_def)
    ultimately show ?thesis using b by auto
  next
    case False
    with 1 obtain df1 df2 descriptions df3 cardinals df4 where
      r: "df_rename ''time'' ''timestamp'' df0 = Inr df1"
      and d: "df_to_datetime e True ''timestamp'' df1 = Inr df2"
      and s3: "df_setcol ''weather_description'' descriptions df2 = Inr df3"
      and s4: "df_setcol ''wind_direction_cardinal'' cardinals df3 = Inr df4"
      and s: "sort_values ''timestamp'' df4 = Inr df"
      by (auto elim!: ebind_InrE)
    have "length df = length df0"
      using df_rename_Inr [OF r] df_to_datetime_Inr [OF d] df_setcol_rows [OF s3]
        df_setcol_rows [OF s4] sort_values_Inr [OF s] by simp
    moreover have "\<forall>r\<in>set df. r \<noteq> []"
      using df_setcol_rows [OF s4] sort_values_Inr [OF s] by simp
    ultimately show ?thesis using b by (cases df) (auto simp: df_empty_def)
  qed
qed

text \<open>
  C9. Whenever \<open>get_hourly_forecast 1 0\<close> returns a table that is not empty,
  \<open>get_current_weather\<close> returns exactly one row, and that row is the first row of
  that table, cell by cell with its derived columns, whose timestamp is the earliest of
  the table; whenever the forecast table is empty, so is the result. A response whose
  \<^verbatim>\<open>hourly\<close> block holds a \<^verbatim>\<open>time\<close> array of N hours, N at least 1, makes the forecast
  table one of N rows, not empty.
\<close>

theorem current_weather_is_first_row:
  assumes "get_hourly_forecast e 1 0 w = (Inr df, w')"
  shows "(df_empty df \<longrightarrow> get_current_weather e w = (Inr [], w'))
       \<and> (\<not> df_empty df \<longrightarrow>
            (\<exists>r. get_current_weather e w = (Inr [r], w') \<and> r = df ! 0 \<and> 0 < length df
               \<and> (\<forall>r'\<in>set df. ts_key ''timestamp'' r \<le> ts_key ''timestamp'' r')))
       \<and> (\<forall>data kvs cs hours.
             requests_send e (sent w) (GET OPENMETEO_API_URL (forecast_params e 1 0)) = Response data
             \<and> getitem data ''hourly'' = Inr (JObj kvs) \<and> as_columns kvs = Some cs
             \<and> map_of cs ''time'' = Some hours \<and> hours \<noteq> []
             \<longrightarrow> length df = length hours \<and> \<not> df_empty df)"
proof (intro conjI)
  show "df_empty df \<longrightarrow> get_current_weather e w = (Inr [], w')"
    using assms by (simp add: get_current_weather_def)
  show "\<not> df_empty df \<longrightarrow>
            (\<exists>r. get_current_weather e w = (Inr [r], w') \<and> r = df ! 0 \<and> 0 < length df
               \<and> (\<forall>r'\<in>set df. ts_key ''timestamp'' r \<le> ts_key ''timestamp'' r'))"
  proof (cases df)
    case Nil
    then show ?thesis by (simp add: df_empty_def)
  next
    case (Cons r rs)
    have "sorted (map (ts_key ''timestamp'') df)"
      using assms by (rule get_hourly_forecast_sorted)
    with Cons have "\<forall>r'\<in>set df. ts_key ''timestamp'' r \<le> ts_key ''timestamp'' r'"
      by auto
    with Cons assms show ?thesis
      by (simp add: get_current_weather_def iloc0_frame_def)
  qed
  show "\<forall>data kvs cs hours.
             requests_send e (sent w) (GET OPENMETEO_API_URL (forecast_params e 1 0)) = Response data
             \<and> getitem data ''hourly'' = Inr (JObj kvs) \<and> as_columns kvs = Some cs
             \<and> map_of cs ''time'' = Some hours \<and> hours \<noteq> []
             \<longrightarrow> length df = length hours \<and> \<not> df_empty df"
  proof (intro allI impI, elim conjE)
    fix data kvs cs hours
    assume o: "requests_send e (sent w) (GET OPENMETEO_API_URL (forecast_params e 1 0)) = Response data"
      and g: "getitem data ''hourly'' = Inr (JObj kvs)" and c: "as_columns kvs = Some cs"
      and t: "map_of cs ''time'' = Some hours" and n: "hours \<noteq> []"
    from assms o have "hourly_frame e data = Inr df"
      by (simp add: get_hourly_forecast_def Let_def)
    from hourly_frame_rows [OF this g c t] n
    show "length df = length hours \<and> \<not> df_empty df" by simp
  qed
qed

theorem current_weather_is_first_row_witness:
  "(\<exists>w'. get_hourly_forecast (scenario_env (Response forecast_response)) 1 0 world0
            = (Inr forecast_frame, w')
        \<and> \<not> df_empty forecast_frame \<and> length forecast_frame = 2
        \<and> get_current_weather (scenario_env (Response forecast_response)) world0
            = (Inr [forecast_frame ! 0], w'))
   \<and> (\<exists>w'. get_hourly_forecast (scenario_env (HTTPError 503 ''unavailable'')) 1 0 world0 = (Inr [], w')
        \<and> df_empty []
        \<and> get_current_weather (scenario_env (HTTPError 503 ''unavailable'')) world0 = (Inr [], w'))"
proof -
  have "fst (get_hourly_forecast (scenario_env (Response forecast_response)) 1 0 world0)
          = Inr forecast_frame"
    by code_simp
  then obtain w1 where 1: "get_hourly_forecast (scenario_env (Response forecast_response)) 1 0 world0
          = (Inr forecast_frame, w1)"
    by (metis prod.collapse)
  have "fst (get_hourly_forecast (scenario_env (HTTPError 503 ''unavailable'')) 1 0 world0) = Inr []"
    by code_simp
  then obtain w2 where 2: "get_hourly_forecast (scenario_env (HTTPError 503 ''unavailable'')) 1 0 world0
          = (Inr [], w2)"
    by (metis prod.collapse)
  have n: "\<not> df_empty forecast_frame" "df_empty []"
    by (simp_all add: df_empty_def forecast_frame_def)
  from current_weather_is_first_row [OF 1] n
  have a: "get_current_weather (scenario_env (Response forecast_response)) world0
            = (Inr [forecast_frame ! 0], w1)" by auto
  from current_weather_is_first_row [OF 2] n
  have b: "get_current_weather (scenario_env (HTTPError 503 ''unavailable'')) world0 = (Inr [], w2)"
    by auto
  let ?hours = "[JStr ''2024-01-01T10:00:00Z'', JStr ''2024-01-01T09:00:00Z'']"
  let ?cs = "[(''time'', ?hours), (''weather_code'', [JNum 3, JNum 4]),
              (''wind_direction_10m'', [JNum 200, JNum 10])]"
  let ?kvs = "[(''time'', JArr ?hours), (''weather_code'', JArr [JNum 3, JNum 4]),
              (''wind_direction_10m'', JArr [JNum 200, JNum 10])]"
  have o: "requests_send (scenario_env (Response forecast_response)) (sent world0)
             (GET OPENMETEO_API_URL (forecast_params (scenario_env (Response forecast_response)) 1 0))
           = Response forecast_response"
    by (simp add: scenario_env_def)
  have g: "getitem forecast_response ''hourly'' = Inr (JObj ?kvs)"
    by (simp add: forecast_response_def)
  have c: "as_columns ?kvs = Some ?cs" by simp
  have t: "map_of ?cs ''time'' = Some ?hours" by simp
  from current_weather_is_first_row [OF 1]
  have "requests_send (scenario_env (Response forecast_response)) (sent world0)
             (GET OPENMETEO_API_URL (forecast_params (scenario_env (Response forecast_response)) 1 0))
           = Response forecast_response
        \<and> getitem forecast_response ''hourly'' = Inr (JObj ?kvs) \<and> as_columns ?kvs = Some ?cs
        \<and> map_of ?cs ''time'' = Some ?hours \<and> ?hours \<noteq> []
        \<longrightarrow> length forecast_frame = length ?hours \<and> \<not> df_empty forecast_frame"
    by blast
  with o g c t have l: "length forecast_frame = 2" by simp
  show ?thesis using 1 2 n a b l by blast
qed

subsection \<open>Wind direction\<close>

lemma sequence_Inr:
  "sequence ms = Inr xs \<Longrightarrow> length xs = length ms \<and> (\<forall>i<length ms. ms ! i = Inr (xs ! i))"
proof (induction ms arbitrary: xs)
  case Nil
  then show ?case by simp
next
  case (Cons m ms)
  from Cons.prems obtain x ys where m: "m = Inr x" and ys: "sequence ms = Inr ys"
    and xs: "xs = x # ys"
    by (auto elim!: ebind_InrE)
  from Cons.IH [OF ys] m xs show ?case by (auto simp: nth_Cons split: nat.splits)
qed

lemma df_getcol_Inr: "df_getcol c df = Inr col \<Longrightarrow> col = map (row_get c) df"
  by (auto simp: df_getcol_def split: if_splits)

lemma hourly_frame_wind:
  assumes "hourly_frame e data = Inr df" and "\<not> df_empty df" and "r \<in> set df"
  shows "wind_direction_cell (row_get ''wind_direction_10m'' r)
           = Inr (row_get ''wind_direction_cardinal'' r)"
proof -
  have ne: "df \<noteq> []" using assms(2) by (auto simp: df_empty_def)
  have t: "truthy data" using assms(1) ne by (cases "truthy data") (auto simp: hourly_frame_def)
  with assms(1) obtain has_hourly where
    1: "(if \<not> has_hourly then Inr []
        else
          ebind (ebind (getitem data ''hourly'') DataFrame) (\<lambda>df.
            if \<not> df_empty df then
              ebind (df_rename ''time'' ''timestamp'' df) (\<lambda>df1.
              ebind (df_to_datetime e True ''timestamp'' df1) (\<lambda>df2.
              ebind (ebind (df_getcol ''weather_code'' df2) (\<lambda>col. sequence (map weather_description col)))
                (\<lambda>descriptions.
              ebind (df_setcol ''weather_description'' descriptions df2) (\<lambda>df3.
              ebind (ebind (df_getcol ''wind_direction_10m'' df3) (\<lambda>col. sequence (map wind_direction_cell col)))
                (\<lambda>cardinals.
              ebind (df_setcol ''wind_direction_cardinal'' cardinals df3) (\<lambda>df4.
                sort_values ''timestamp'' df4))))))
            else Inr df)) = Inr df"
    unfolding hourly_frame_def by (auto elim!: ebind_InrE)
  have has_hourly using 1 ne by (cases has_hourly) auto
  with 1 obtain df0 where
    2: "(if \<not> df_empty df0 then
              ebind (df_rename ''time'' ''timestamp'' df0) (\<lambda>df1.
              ebind (df_to_datetime e True ''timestamp'' df1) (\<lambda>df2.
              ebind (ebind (df_getcol ''weather_code'' df2) (\<lambda>col. sequence (map weather_description col)))
                (\<lambda>descriptions.
              ebind (df_setcol ''weather_description'' descriptions df2) (\<lambda>df3.
              ebind (ebind (df_getcol ''wind_direction_10m'' df3) (\<lambda>col. sequence (map wind_direction_cell col)))
                (\<lambda>cardinals.
              ebind (df_setcol ''wind_direction_cardinal'' cardinals df3) (\<lambda>df4.
                sort_values ''timestamp'' df4))))))
            else Inr df0) = Inr df"
    by (auto elim!: ebind_InrE)
  have "\<not> df_empty df0" using 2 assms(2) by (cases "df_empty df0") auto
  with 2 obtain df3 col cardinals df4 where
    g: "df_getcol ''wind_direction_10m'' df3 = Inr col"
    and s: "sequence (map wind_direction_cell col) = Inr cardinals"
    and c: "df_setcol ''wind_direction_cardinal'' cardinals df3 = Inr df4"
    and d: "sort_values ''timestamp'' df4 = Inr df"
    by (auto elim!: ebind_InrE)
  from assms(3) sort_values_set [OF d] have "r \<in> set df4" by simp
  then obtain i where i: "i < length df4" "df4 ! i = r" by (auto simp: in_set_conv_nth)
  note sc = df_setcol_Inr [OF c]
  from sc i have il: "i < length df3" and r: "r = row_set ''wind_direction_cardinal'' (cardinals ! i) (df3 ! i)"
    by auto
  have col: "col = map (row_get ''wind_direction_10m'') df3" using g by (rule df_getcol_Inr)
  from sequence_Inr [OF s] il col
  have "wind_direction_cell (row_get ''wind_direction_10m'' (df3 ! i)) = Inr (cardinals ! i)"
    by auto
  with r show ?thesis by simp
qed

text \<open>
  C8. For every bearing from 0 to 360 the label of \<open>wind_direction_cardinal\<close> is the
  one of the table of eight half-open buckets: N on [337.5, 360) and [0, 22.5), NE on
  [22.5, 67.5), E on [67.5, 112.5), SE on [112.5, 157.5), S on [157.5, 202.5), SW on
  [202.5, 247.5), W on [247.5, 292.5), NW on [292.5, 337.5). In particular 10 is N,
  200 is S, 337.5 is N and 22.5 is NE. And in every row of a table that is not empty
  and that \<open>get_hourly_forecast\<close> returns, the cell \<^verbatim>\<open>wind_direction_cardinal\<close> is that
  label of the bearing in the cell \<^verbatim>\<open>wind_direction_10m\<close>.
\<close>

theorem wind_direction_cardinal_buckets:
  "(0 \<le> d \<and> d \<le> 360 \<longrightarrow>
     ((337.5 \<le> d \<and> d < 360 \<or> 0 \<le> d \<and> d < 22.5) \<longrightarrow> wind_direction_cardinal d = ''N'') \<and>
     (22.5 \<le> d \<and> d < 67.5 \<longrightarrow> wind_direction_cardinal d = ''NE'') \<and>
     (67.5 \<le> d \<and> d < 112.5 \<longrightarrow> wind_direction_cardinal d = ''E'') \<and>
     (112.5 \<le> d \<and> d < 157.5 \<longrightarrow> wind_direction_cardinal d = ''SE'') \<and>
     (157.5 \<le> d \<and> d < 202.5 \<longrightarrow> wind_direction_cardinal d = ''S'') \<and>
     (202.5 \<le> d \<and> d < 247.5 \<longrightarrow> wind_direction_cardinal d = ''SW'') \<and>
     (247.5 \<le> d \<and> d < 292.5 \<longrightarrow> wind_direction_cardinal d = ''W'') \<and>
     (292.5 \<le> d \<and> d < 337.5 \<longrightarrow> wind_direction_cardinal d = ''NW''))
   \<and> wind_direction_cardinal 10 = ''N''
   \<and> wind_direction_cardinal 200 = ''S''
   \<and> wind_direction_cardinal 337.5 = ''N''
   \<and> wind_direction_cardinal 22.5 = ''NE''
   \<and> (get_hourly_forecast e num_hours past_hours w = (Inr df, w') \<and> \<not> df_empty df
        \<and> r \<in> set df \<and> row_get ''wind_direction_10m'' r = Val (JNum d)
      \<longrightarrow> row_get ''wind_direction_cardinal'' r = Val (JStr (wind_direction_cardinal d)))"
proof -
  have "row_get ''wind_direction_cardinal'' r = Val (JStr (wind_direction_cardinal d))"
    if h: "get_hourly_forecast e num_hours past_hours w = (Inr df, w')" and n: "\<not> df_empty df"
      and r: "r \<in> set df" and b: "row_get ''wind_direction_10m'' r = Val (JNum d)"
  proof (cases "requests_send e (sent w) (GET OPENMETEO_API_URL (forecast_params e num_hours past_hours))")
    case (Response data)
    with h have "hourly_frame e data = Inr df"
      by (simp add: get_hourly_forecast_def Let_def)
    from hourly_frame_wind [OF this n r] b show ?thesis by simp
  next
    case (HTTPError code body)
    with h n show ?thesis by (simp add: get_hourly_forecast_def Let_def df_empty_def)
  next
    case (RequestException msg)
    with h n show ?thesis by (simp add: get_hourly_forecast_def Let_def df_empty_def)
  qed
  then show ?thesis by (simp add: wind_direction_cardinal_def)
qed

theorem wind_direction_cardinal_buckets_witness:
  "(0::rat) \<le> 200 \<and> (200::rat) \<le> 360 \<and> (157.5::rat) \<le> 200 \<and> (200::rat) < 202.5
   \<and> (\<exists>w'. get_hourly_forecast (scenario_env (Response forecast_response)) 72 0 world0
             = (Inr forecast_frame, w'))
   \<and> \<not> df_empty forecast_frame
   \<and> forecast_frame ! 1 \<in> set forecast_frame
   \<and> row_get ''wind_direction_10m'' (forecast_frame ! 1) = Val (JNum 200)
   \<and> wind_direction_cardinal 200 = ''S''
   \<and> row_get ''wind_direction_cardinal'' (forecast_frame ! 1) = Val (JStr ''S'')"
proof -
  have "fst (get_hourly_forecast (scenario_env (Response forecast_response)) 72 0 world0)
          = Inr forecast_frame"
    by code_simp
  then obtain w1 where 1: "get_hourly_forecast (scenario_env (Response forecast_response)) 72 0 world0
          = (Inr forecast_frame, w1)"
    by (metis prod.collapse)
  have n: "\<not> df_empty forecast_frame" by (simp add: df_empty_def forecast_frame_def)
  have m: "forecast_frame ! 1 \<in> set forecast_frame" by (simp add: forecast_frame_def)
  have b: "row_get ''wind_direction_10m'' (forecast_frame ! 1) = Val (JNum 200)"
    by (simp add: forecast_frame_def row_get_def)
  note t = wind_direction_cardinal_buckets
    [where d = 200 and e = "scenario_env (Response forecast_response)" and num_hours = 72
       and past_hours = 0 and w = world0 and df = forecast_frame and w' = w1
       and r = "forecast_frame ! 1"]
  from t have s: "wind_direction_cardinal 200 = ''S''" by simp
  from t 1 n m b
  have "row_get ''wind_direction_cardinal'' (forecast_frame ! 1)
          = Val (JStr (wind_direction_cardinal 200))" by blast
  with s 1 n m b show ?thesis by auto
qed

end
